theory Spec2Isabelle
  imports Main
begin

unbundle bit_operations_syntax

section \<open>Values, errors and the device transport\<close>

text \<open>
  The values exchanged with the device are the JSON values the vendor client decodes:
  null, booleans, integers, strings and lists of these.  Floating point numbers and
  JSON objects are not part of the model.  Strings are ASCII byte strings.
\<close>

datatype pyval =
    PNone
  | PBool bool
  | PInt int
  | PStr string
  | PList "pyval list"

text \<open>
  Exceptions are values.  \<open>DeviceException\<close> is the vendor client's exception class
  (with its message); the others are the built-in exceptions the modelled code can raise.
\<close>

datatype error =
    DeviceException string
  | TypeError
  | ValueError
  | KeyError string
  | AttributeError string

text \<open>Python's \<^verbatim>\<open>==\<close> on the modelled values: \<^verbatim>\<open>True == 1\<close> and \<^verbatim>\<open>False == 0\<close> hold,
  lists are equal when they have the same length and equal elements.\<close>

fun py_eq :: "pyval \<Rightarrow> pyval \<Rightarrow> bool"
  and py_eq_list :: "pyval list \<Rightarrow> pyval list \<Rightarrow> bool" where
  "py_eq PNone PNone = True"
| "py_eq (PBool a) (PBool b) = (a = b)"
| "py_eq (PBool a) (PInt j) = ((if a then 1 else 0) = j)"
| "py_eq (PInt i) (PBool b) = (i = (if b then 1 else 0))"
| "py_eq (PInt i) (PInt j) = (i = j)"
| "py_eq (PStr s) (PStr t) = (s = t)"
| "py_eq (PList xs) (PList ys) = py_eq_list xs ys"
| "py_eq _ _ = False"
| "py_eq_list [] [] = True"
| "py_eq_list (x # xs) (y # ys) = (py_eq x y \<and> py_eq_list xs ys)"
| "py_eq_list _ _ = False"

text \<open>Truth value of an object in an \<^verbatim>\<open>if\<close> test.\<close>

fun py_truthy :: "pyval \<Rightarrow> bool" where
  "py_truthy PNone = False"
| "py_truthy (PBool b) = b"
| "py_truthy (PInt i) = (i \<noteq> 0)"
| "py_truthy (PStr s) = (s \<noteq> [])"
| "py_truthy (PList xs) = (xs \<noteq> [])"

text \<open>Iterating a value, as \<^verbatim>\<open>list.extend\<close> does: a list yields its elements, a string
  its characters, anything else raises \<^verbatim>\<open>TypeError\<close>.\<close>

fun py_iter :: "pyval \<Rightarrow> error + pyval list" where
  "py_iter (PList xs) = Inr xs"
| "py_iter (PStr s) = Inr (map (\<lambda>c. PStr [c]) s)"
| "py_iter _ = Inl TypeError"

text \<open>
  A call of \<^verbatim>\<open>self._device.send(command, parameters)\<close>.  The device is an external
  collaborator: it is a parameter of the model, a function from the calls this entity has
  made so far and the present call to either a raised exception or a returned value.
\<close>

type_synonym call = "string \<times> pyval"
type_synonym transport = "call list \<Rightarrow> call \<Rightarrow> error + pyval"

datatype log_level = DEBUG | ERROR

datatype log_arg =
    LVal pyval
  | LNat nat
  | LExc error
  | LStatus "string \<Rightarrow> pyval option"

type_synonym log_record = "log_level \<times> string \<times> log_arg list"

definition SUCCESS :: pyval where
  "SUCCESS = PList [PStr ''ok'']"

section \<open>Operation modes\<close>

datatype OperationMode = Off | Auto | Sleep | Favourite

fun OperationMode_value :: "OperationMode \<Rightarrow> string" where
  "OperationMode_value Off = ''off''"
| "OperationMode_value Auto = ''auto''"
| "OperationMode_value Sleep = ''sleep''"
| "OperationMode_value Favourite = ''favourite''"

text \<open>\<^verbatim>\<open>OperationMode[name]\<close>: lookup of a member by name, \<^verbatim>\<open>KeyError\<close> otherwise.\<close>

definition OperationMode_getitem :: "string \<Rightarrow> error + OperationMode" where
  "OperationMode_getitem n =
     (if n = ''Off'' then Inr Off
      else if n = ''Auto'' then Inr Auto
      else if n = ''Sleep'' then Inr Sleep
      else if n = ''Favourite'' then Inr Favourite
      else Inl (KeyError n))"

text \<open>\<^verbatim>\<open>OperationMode(value)\<close>: lookup of a member by value, \<^verbatim>\<open>ValueError\<close> otherwise
  (in particular for \<^verbatim>\<open>None\<close>).\<close>

definition OperationMode_call :: "pyval \<Rightarrow> error + OperationMode" where
  "OperationMode_call v =
     (if py_eq v (PStr ''off'') then Inr Off
      else if py_eq v (PStr ''auto'') then Inr Auto
      else if py_eq v (PStr ''sleep'') then Inr Sleep
      else if py_eq v (PStr ''favourite'') then Inr Favourite
      else Inl ValueError)"

subsection \<open>\<^verbatim>\<open>str.title()\<close> on ASCII strings\<close>

definition ascii_lowercase :: string where
  "ascii_lowercase = ''abcdefghijklmnopqrstuvwxyz''"

definition ascii_uppercase :: string where
  "ascii_uppercase = ''ABCDEFGHIJKLMNOPQRSTUVWXYZ''"

definition islower :: "char \<Rightarrow> bool" where
  "islower c = (c \<in> set ascii_lowercase)"

definition isupper :: "char \<Rightarrow> bool" where
  "isupper c = (c \<in> set ascii_uppercase)"

definition toupper :: "char \<Rightarrow> char" where
  "toupper c = (case map_of (zip ascii_lowercase ascii_uppercase) c of
                  Some u \<Rightarrow> u | None \<Rightarrow> c)"

definition tolower :: "char \<Rightarrow> char" where
  "tolower c = (case map_of (zip ascii_uppercase ascii_lowercase) c of
                  Some l \<Rightarrow> l | None \<Rightarrow> c)"

text \<open>The flag is \<^verbatim>\<open>previous_is_cased\<close> of the library's loop: a cased character after an
  uncased one is put in upper case, a cased character after a cased one in lower case.\<close>

fun title_from :: "bool \<Rightarrow> string \<Rightarrow> string" where
  "title_from prev [] = []"
| "title_from prev (c # cs) =
     (if islower c then (if prev then c else toupper c) # title_from True cs
      else if isupper c then (if prev then tolower c else c) # title_from True cs
      else c # title_from False cs)"

definition title :: "string \<Rightarrow> string" where
  "title s = title_from False s"

section \<open>The status container\<close>

text \<open>
  \<^verbatim>\<open>AirFreshDeviceStatus\<close> (and \<^verbatim>\<open>AirFreshDStatus\<close>) wrap a
  \<^verbatim>\<open>defaultdict(lambda: None, zip(properties, values))\<close>.  Building a dictionary from
  pairs lets a later pair overwrite an earlier one with the same key; \<^verbatim>\<open>zip\<close> stops at
  the shorter list; reading a missing key gives \<^verbatim>\<open>None\<close>.
\<close>

type_synonym status = "string \<Rightarrow> pyval option"

definition dict_of :: "(string \<times> pyval) list \<Rightarrow> status" where
  "dict_of kvs = fold (\<lambda>(k, v) m. m(k \<mapsto> v)) kvs Map.empty"

definition data_get :: "status \<Rightarrow> string \<Rightarrow> pyval" where
  "data_get d k = (case d k of None \<Rightarrow> PNone | Some v \<Rightarrow> v)"

definition power :: "status \<Rightarrow> pyval" where
  "power d = data_get d ''power''"

definition is_on :: "status \<Rightarrow> bool" where
  "is_on d = py_eq (power d) (PBool True)"

definition pm25 :: "status \<Rightarrow> pyval" where
  "pm25 d = data_get d ''pm25''"

definition co2 :: "status \<Rightarrow> pyval" where
  "co2 d = data_get d ''co2''"

definition mode :: "status \<Rightarrow> error + OperationMode" where
  "mode d = OperationMode_call (data_get d ''mode'')"

text \<open>The remaining properties of \<^verbatim>\<open>AirFreshDeviceStatus\<close> all have the shape
  \<^verbatim>\<open>return self.data[name]\<close>; they are listed by name.\<close>

definition plain_properties_Device :: "string list" where
  "plain_properties_Device =
     [''power'', ''pm25'', ''co2'', ''temperature_outside'', ''favourite_speed'',
      ''filter_rate'', ''filter_day'', ''control_speed'', ''ptc_on'', ''ptc_status'',
      ''child_lock'', ''sound'', ''display'']"

definition plain_properties_D :: "string list" where
  "plain_properties_D = [''power'', ''pm25'', ''co2'']"

text \<open>\<^verbatim>\<open>getattr(state, attribute)\<close> for the property names of the container: the value of
  a property is a plain value or a member of the enumeration.\<close>

datatype attr_value = Plain pyval | Member OperationMode

definition getattr_status :: "string list \<Rightarrow> status \<Rightarrow> string \<Rightarrow> error + attr_value" where
  "getattr_status plain d a =
     (if a = ''mode'' then (case mode d of Inl e \<Rightarrow> Inl e | Inr m \<Rightarrow> Inr (Member m))
      else if a = ''is_on'' then Inr (Plain (PBool (is_on d)))
      else if a \<in> set plain then Inr (Plain (data_get d a))
      else Inl (AttributeError a))"

definition extract_value_from_attribute ::
    "string list \<Rightarrow> status \<Rightarrow> string \<Rightarrow> error + pyval" where
  "extract_value_from_attribute plain st attribute =
     (case getattr_status plain st attribute of
        Inl e \<Rightarrow> Inl e
      | Inr (Member m) \<Rightarrow> Inr (PStr (OperationMode_value m))
      | Inr (Plain v) \<Rightarrow> Inr v)"

section \<open>The entity\<close>

text \<open>
  The two entity classes, \<^verbatim>\<open>XiaomiAirFreshDevice\<close> (custom_components/xiaomi_airfresh/fan.py)
  and \<^verbatim>\<open>XiaomiAirFreshD\<close> (xiaomi_airfresh/fan.py), share the text of \<^verbatim>\<open>get_status\<close>,
  \<^verbatim>\<open>async_update\<close>, \<^verbatim>\<open>_try_command\<close> and \<^verbatim>\<open>send_raw_cmd\<close> and differ in the tables
  these use.  The tables are collected in a record; the suffixes \<open>_Device\<close> and \<open>_D\<close>
  tell the classes apart.
\<close>

record tables =
  properties :: "string list"
  available_attributes :: "(string \<times> string) list"
  plain_properties :: "string list"

definition properties_Device :: "string list" where
  "properties_Device =
     [''power'', ''pm25'', ''co2'', ''temperature_outside'', ''favourite_speed'',
      ''filter_rate'', ''filter_day'', ''control_speed'', ''ptc_on'', ''ptc_status'',
      ''child_lock'', ''sound'', ''display'', ''mode'']"

definition AVAILABLE_ATTRIBUTES_AIRFRESH_Device :: "(string \<times> string) list" where
  "AVAILABLE_ATTRIBUTES_AIRFRESH_Device =
     [(''pm25'', ''pm25''), (''co2'', ''co2''), (''mode'', ''mode''),
      (''temperature_outside'', ''temperature_outside''),
      (''favourite_speed'', ''favourite_speed''), (''filter_rate'', ''filter_rate''),
      (''filter_day'', ''filter_day''), (''control_speed'', ''control_speed''),
      (''ptc_on'', ''ptc_on''), (''ptc_status'', ''ptc_status''),
      (''child_lock'', ''child_lock''), (''sound'', ''sound''), (''display'', ''display'')]"

definition tables_Device :: tables where
  "tables_Device =
     \<lparr>properties = properties_Device,
      available_attributes = AVAILABLE_ATTRIBUTES_AIRFRESH_Device,
      plain_properties = plain_properties_Device\<rparr>"

definition properties_D :: "string list" where
  "properties_D = [''power'', ''pm25'', ''co2'', ''mode'']"

definition AVAILABLE_ATTRIBUTES_AIRFRESH_D :: "(string \<times> string) list" where
  "AVAILABLE_ATTRIBUTES_AIRFRESH_D = [(''pm25'', ''pm25''), (''co2'', ''co2''), (''mode'', ''mode'')]"

definition tables_D :: tables where
  "tables_D =
     \<lparr>properties = properties_D,
      available_attributes = AVAILABLE_ATTRIBUTES_AIRFRESH_D,
      plain_properties = plain_properties_D\<rparr>"

text \<open>
  The state of an entity: the fields \<^verbatim>\<open>_available\<close>, \<^verbatim>\<open>_state\<close> (\<^verbatim>\<open>None\<close> until the
  first poll), \<^verbatim>\<open>_state_attrs\<close> and \<^verbatim>\<open>_skip_update\<close>, together with the two traces
  of what the entity did to the outside: the calls made on the device (\<open>wire\<close>) and the
  records handed to the logger (\<open>logged\<close>).
\<close>

record entity =
  available :: bool
  state :: "bool option"
  state_attrs :: "string \<Rightarrow> pyval option"
  skip_update :: bool
  wire :: "call list"
  logged :: "log_record list"

definition log :: "log_level \<Rightarrow> string \<Rightarrow> log_arg list \<Rightarrow> entity \<Rightarrow> entity" where
  "log lvl msg args s = s\<lparr>logged := logged s @ [(lvl, msg, args)]\<rparr>"

text \<open>\<^verbatim>\<open>__init__\<close>: unavailable, power unknown, every attribute \<^verbatim>\<open>None\<close>.\<close>

definition init :: "tables \<Rightarrow> string \<Rightarrow> entity" where
  "init t model =
     \<lparr>available = False,
      state = None,
      state_attrs = [''model'' \<mapsto> PStr model] ++
                    map_of (map (\<lambda>(attribute, _). (attribute, PNone)) (available_attributes t)),
      skip_update = False,
      wire = [],
      logged = []\<rparr>"

subsection \<open>Polling\<close>

text \<open>The loop of \<^verbatim>\<open>get_status\<close>:
  \<^verbatim>\<open>while _props: values.extend(self._device.send("get_prop", _props[:4])); _props[:] = _props[4:]\<close>\<close>

definition get_prop :: "string list \<Rightarrow> call" where
  "get_prop names = (''get_prop'', PList (map PStr names))"

function get_status_loop ::
    "transport \<Rightarrow> string list \<Rightarrow> pyval list \<Rightarrow> entity \<Rightarrow> (error + pyval list) \<times> entity" where
  "get_status_loop tr props vals s =
     (if props = [] then (Inr vals, s)
      else
        let c = get_prop (take 4 props);
            s1 = s\<lparr>wire := wire s @ [c]\<rparr>
        in case tr (wire s) c of
             Inl e \<Rightarrow> (Inl e, s1)
           | Inr r \<Rightarrow>
               (case py_iter r of
                  Inl e \<Rightarrow> (Inl e, s1)
                | Inr vs \<Rightarrow> get_status_loop tr (drop 4 props) (vals @ vs) s1))"
  by pat_completeness auto
termination
  by (relation "measure (\<lambda>(tr, props, vals, s). length props)") auto

declare get_status_loop.simps [simp del]

definition get_status :: "tables \<Rightarrow> transport \<Rightarrow> entity \<Rightarrow> (error + status) \<times> entity" where
  "get_status t tr s =
     (case get_status_loop tr (properties t) [] s of
        (Inl e, s1) \<Rightarrow> (Inl e, s1)
      | (Inr vals, s1) \<Rightarrow>
          let properties_count = length (properties t);
              values_count = length vals;
              s2 = (if properties_count \<noteq> values_count
                    then log DEBUG
                           (''Count (%s) of requested properties does not match the '' @
                            ''count (%s) of received values.'')
                           [LNat properties_count, LNat values_count] s1
                    else s1)
          in (Inr (dict_of (zip (properties t) vals)), s2))"

text \<open>The dictionary comprehension of \<^verbatim>\<open>async_update\<close>: it is evaluated in the order of
  the attribute table and the first exception ends it.\<close>

fun extract_all ::
    "string list \<Rightarrow> status \<Rightarrow> (string \<times> string) list \<Rightarrow> error + (string \<times> pyval) list" where
  "extract_all plain st [] = Inr []"
| "extract_all plain st ((key, attribute) # rest) =
     (case extract_value_from_attribute plain st attribute of
        Inl e \<Rightarrow> Inl e
      | Inr v \<Rightarrow>
          (case extract_all plain st rest of
             Inl e \<Rightarrow> Inl e
           | Inr kvs \<Rightarrow> Inr ((key, v) # kvs)))"

text \<open>\<^verbatim>\<open>dict.update\<close> with a dictionary built from the given pairs.\<close>

definition update_attrs :: "(string \<times> pyval) list \<Rightarrow> entity \<Rightarrow> entity" where
  "update_attrs kvs s = s\<lparr>state_attrs := state_attrs s ++ dict_of kvs\<rparr>"

text \<open>The body of the \<^verbatim>\<open>try\<close> block of \<^verbatim>\<open>async_update\<close>.\<close>

definition async_update_try :: "tables \<Rightarrow> transport \<Rightarrow> entity \<Rightarrow> (error + unit) \<times> entity" where
  "async_update_try t tr s =
     (case get_status t tr s of
        (Inl e, s1) \<Rightarrow> (Inl e, s1)
      | (Inr st, s1) \<Rightarrow>
          let s2 = log DEBUG ''Got new state: %s'' [LStatus st] s1;
              s3 = s2\<lparr>available := True\<rparr>;
              s4 = s3\<lparr>state := Some (is_on st)\<rparr>
          in case extract_all (plain_properties t) st (available_attributes t) of
               Inl e \<Rightarrow> (Inl e, s4)
             | Inr kvs \<Rightarrow> (Inr (), update_attrs kvs s4))"

definition async_update :: "tables \<Rightarrow> transport \<Rightarrow> entity \<Rightarrow> (error + unit) \<times> entity" where
  "async_update t tr s =
     (if skip_update s then (Inr (), s\<lparr>skip_update := False\<rparr>)
      else
        case async_update_try t tr s of
          (Inl (DeviceException ex), s1) \<Rightarrow>
            (Inr (),
             log ERROR ''Got exception while fetching the state: %s''
               [LExc (DeviceException ex)] (s1\<lparr>available := False\<rparr>))
        | (Inl e, s1) \<Rightarrow> (Inl e, s1)
        | (Inr u, s1) \<Rightarrow> (Inr u, s1))"

subsection \<open>Commands\<close>

text \<open>
  \<^verbatim>\<open>_try_command(mask_error, command, parameters)\<close>: the call is made; an answer is
  compared with \<^verbatim>\<open>SUCCESS\<close>; a \<^verbatim>\<open>DeviceException\<close> is logged with \<^verbatim>\<open>mask_error\<close>
  and marks the entity unavailable; any other exception is not caught.
\<close>

definition try_command ::
    "transport \<Rightarrow> string \<Rightarrow> string \<Rightarrow> pyval \<Rightarrow> entity \<Rightarrow> (error + bool) \<times> entity" where
  "try_command tr mask_error command parameters s =
     (let c = (command, parameters);
          s1 = s\<lparr>wire := wire s @ [c]\<rparr>
      in case tr (wire s) c of
           Inr result \<Rightarrow>
             (Inr (py_eq result SUCCESS),
              log DEBUG ''Response received from miio device: %s'' [LVal result] s1)
         | Inl (DeviceException exc) \<Rightarrow>
             (Inr False,
              (log ERROR mask_error [LExc (DeviceException exc)] s1)\<lparr>available := False\<rparr>)
         | Inl e \<Rightarrow> (Inl e, s1))"

definition send_raw_cmd ::
    "transport \<Rightarrow> string \<Rightarrow> string \<Rightarrow> pyval \<Rightarrow> entity \<Rightarrow> (error + bool) \<times> entity" where
  "send_raw_cmd tr mask_error command parameters s =
     try_command tr mask_error command parameters
       (log DEBUG ''sending cmd %s %s'' [LVal (PStr command), LVal parameters] s)"

text \<open>A method that awaits a command and discards its result returns \<^verbatim>\<open>None\<close>.\<close>

definition discard :: "(error + 'a) \<times> entity \<Rightarrow> (error + unit) \<times> entity" where
  "discard r = (case r of (Inl e, s) \<Rightarrow> (Inl e, s) | (Inr _, s) \<Rightarrow> (Inr (), s))"

text \<open>The test \<^verbatim>\<open>if speed:\<close> on an optional string.\<close>

fun given :: "string option \<Rightarrow> bool" where
  "given None = False"
| "given (Some sp) = (sp \<noteq> [])"

subsubsection \<open>\<^verbatim>\<open>XiaomiAirFreshDevice\<close>\<close>

text \<open>\<^verbatim>\<open>SUPPORT_SET_SPEED\<close> is a constant of the host framework; it is the parameter
  \<open>sss\<close> of the methods that read it.\<close>

definition async_turn_off_Device :: "transport \<Rightarrow> entity \<Rightarrow> (error + unit) \<times> entity" where
  "async_turn_off_Device tr s =
     discard (send_raw_cmd tr ''Turning the miio device off failed.''
                ''set_power'' (PList [PBool False]) s)"

definition async_set_speed_Device ::
    "int \<Rightarrow> transport \<Rightarrow> string \<Rightarrow> entity \<Rightarrow> (error + unit) \<times> entity" where
  "async_set_speed_Device sss tr speed s =
     (if sss = 0 then (Inr (), s)
      else
        let s1 = log DEBUG ''Setting the operation mode to: %s'' [LVal (PStr speed)] s
        in case OperationMode_getitem (title speed) of
             Inl e \<Rightarrow> (Inl e, s1)
           | Inr m \<Rightarrow>
               if OperationMode_value m = ''off'' then async_turn_off_Device tr s1
               else discard (send_raw_cmd tr
                               ''Setting operation mode of the miio device failed.''
                               ''set_mode'' (PStr (OperationMode_value m)) s1))"

definition async_turn_on_Device ::
    "int \<Rightarrow> transport \<Rightarrow> string option \<Rightarrow> entity \<Rightarrow> (error + unit) \<times> entity" where
  "async_turn_on_Device sss tr speed s =
     (if given speed then async_set_speed_Device sss tr (the speed) s
      else discard (send_raw_cmd tr ''Turning the miio device on failed.''
                      ''set_power'' (PList [PBool True]) s))"

definition async_set_ptc_on :: "transport \<Rightarrow> entity \<Rightarrow> (error + unit) \<times> entity" where
  "async_set_ptc_on tr s =
     discard (send_raw_cmd tr ''Turning the ptc of the miio device on failed.''
                ''set_ptc_on'' (PList [PBool True])
                (log DEBUG ''Setting the ptc to on'' [] s))"

definition async_set_ptc_off :: "transport \<Rightarrow> entity \<Rightarrow> (error + unit) \<times> entity" where
  "async_set_ptc_off tr s =
     discard (send_raw_cmd tr ''Turning the ptc of the miio device off failed.''
                ''set_ptc_on'' (PList [PBool False])
                (log DEBUG ''Setting the ptc to off'' [] s))"

definition async_set_favourite_speed ::
    "transport \<Rightarrow> pyval \<Rightarrow> entity \<Rightarrow> (error + unit) \<times> entity" where
  "async_set_favourite_speed tr speed s =
     discard (send_raw_cmd tr ''Setting favourite speed of the miio device failed.''
                ''set_favourite_speed'' (PList [speed])
                (log DEBUG ''Setting the favourite speed to: %s'' [LVal speed] s))"

definition async_set_sound_on :: "transport \<Rightarrow> entity \<Rightarrow> (error + unit) \<times> entity" where
  "async_set_sound_on tr s =
     discard (send_raw_cmd tr ''Turning the sound of the miio device on failed.''
                ''set_sound_on'' (PList [PBool True])
                (log DEBUG ''Setting the sound to on'' [] s))"

definition async_set_sound_off :: "transport \<Rightarrow> entity \<Rightarrow> (error + unit) \<times> entity" where
  "async_set_sound_off tr s =
     discard (send_raw_cmd tr ''Turning the sound of the miio device off failed.''
                ''set_sound_on'' (PList [PBool False])
                (log DEBUG ''Setting the sound to off'' [] s))"

definition async_set_display_on :: "transport \<Rightarrow> entity \<Rightarrow> (error + unit) \<times> entity" where
  "async_set_display_on tr s =
     discard (send_raw_cmd tr ''Turning the display of the miio device on failed.''
                ''set_display_on'' (PList [PBool True])
                (log DEBUG ''Setting the display to on'' [] s))"

definition async_set_display_off :: "transport \<Rightarrow> entity \<Rightarrow> (error + unit) \<times> entity" where
  "async_set_display_off tr s =
     discard (send_raw_cmd tr ''Turning the display of the miio device off failed.''
                ''set_display_on'' (PList [PBool False])
                (log DEBUG ''Setting the display to off'' [] s))"

definition async_set_filter_reset :: "transport \<Rightarrow> entity \<Rightarrow> (error + unit) \<times> entity" where
  "async_set_filter_reset tr s =
     discard (send_raw_cmd tr ''Reset filter on miio device failed.''
                ''set_filter_reset'' (PList [PBool True])
                (log DEBUG ''Setting the filter reset'' [] s))"

subsubsection \<open>\<^verbatim>\<open>XiaomiAirFreshD\<close>\<close>

text \<open>Here turning on and off keep the result of the command, and on success set the
  power state and \<^verbatim>\<open>_skip_update\<close>.  \<^verbatim>\<open>async_set_speed\<close> has no \<^verbatim>\<open>return\<close> with a
  value: its result, which \<^verbatim>\<open>async_turn_on\<close> tests, is \<^verbatim>\<open>None\<close>.\<close>

definition async_turn_off_D :: "transport \<Rightarrow> entity \<Rightarrow> (error + unit) \<times> entity" where
  "async_turn_off_D tr s =
     (case send_raw_cmd tr ''Turning the miio device off failed.''
             ''set_power'' (PList [PBool False]) s of
        (Inl e, s1) \<Rightarrow> (Inl e, s1)
      | (Inr result, s1) \<Rightarrow>
          (Inr (), if result then s1\<lparr>state := Some False, skip_update := True\<rparr> else s1))"

definition supported_features :: "int \<Rightarrow> int" where
  "supported_features sss = sss"

definition async_set_speed_D ::
    "int \<Rightarrow> transport \<Rightarrow> string \<Rightarrow> entity \<Rightarrow> (error + unit) \<times> entity" where
  "async_set_speed_D sss tr speed s =
     (if supported_features sss AND sss = 0 then (Inr (), s)
      else
        let s1 = log DEBUG ''Setting the operation mode to: %s'' [LVal (PStr speed)] s
        in case OperationMode_getitem (title speed) of
             Inl e \<Rightarrow> (Inl e, s1)
           | Inr m \<Rightarrow>
               if OperationMode_value m = ''off'' then async_turn_off_D tr s1
               else discard (send_raw_cmd tr
                               ''Setting operation mode of the miio device failed.''
                               ''set_mode'' (PStr (OperationMode_value m)) s1))"

definition async_turn_on_D ::
    "int \<Rightarrow> transport \<Rightarrow> string option \<Rightarrow> entity \<Rightarrow> (error + unit) \<times> entity" where
  "async_turn_on_D sss tr speed s =
     (case (if given speed
            then (case async_set_speed_D sss tr (the speed) s of
                    (Inl e, s1) \<Rightarrow> (Inl e, s1)
                  | (Inr _, s1) \<Rightarrow> (Inr PNone, s1))
            else (case send_raw_cmd tr ''Turning the miio device on failed.''
                         ''set_power'' (PList [PBool True]) s of
                    (Inl e, s1) \<Rightarrow> (Inl e, s1)
                  | (Inr b, s1) \<Rightarrow> (Inr (PBool b), s1))) of
        (Inl e, s1) \<Rightarrow> (Inl e, s1)
      | (Inr result, s1) \<Rightarrow>
          (Inr (), if py_truthy result
                   then s1\<lparr>state := Some True, skip_update := True\<rparr> else s1))"

subsubsection \<open>The command operations of an entity\<close>

text \<open>The methods the host framework and the registered services can invoke on an entity,
  other than the poll.\<close>

datatype operation =
    Turn_on "string option"
  | Turn_off
  | Set_speed string
  | Set_ptc_on
  | Set_ptc_off
  | Set_favourite_speed pyval
  | Set_sound_on
  | Set_sound_off
  | Set_display_on
  | Set_display_off
  | Set_filter_reset

fun invoke_Device ::
    "int \<Rightarrow> transport \<Rightarrow> operation \<Rightarrow> entity \<Rightarrow> (error + unit) \<times> entity" where
  "invoke_Device sss tr (Turn_on speed) s = async_turn_on_Device sss tr speed s"
| "invoke_Device sss tr Turn_off s = async_turn_off_Device tr s"
| "invoke_Device sss tr (Set_speed speed) s = async_set_speed_Device sss tr speed s"
| "invoke_Device sss tr Set_ptc_on s = async_set_ptc_on tr s"
| "invoke_Device sss tr Set_ptc_off s = async_set_ptc_off tr s"
| "invoke_Device sss tr (Set_favourite_speed speed) s = async_set_favourite_speed tr speed s"
| "invoke_Device sss tr Set_sound_on s = async_set_sound_on tr s"
| "invoke_Device sss tr Set_sound_off s = async_set_sound_off tr s"
| "invoke_Device sss tr Set_display_on s = async_set_display_on tr s"
| "invoke_Device sss tr Set_display_off s = async_set_display_off tr s"
| "invoke_Device sss tr Set_filter_reset s = async_set_filter_reset tr s"

text \<open>\<^verbatim>\<open>XiaomiAirFreshD\<close> has the first three methods only; looking up another one
  raises \<^verbatim>\<open>AttributeError\<close> and leaves the entity as it is.\<close>

fun invoke_D ::
    "int \<Rightarrow> transport \<Rightarrow> operation \<Rightarrow> entity \<Rightarrow> (error + unit) \<times> entity" where
  "invoke_D sss tr (Turn_on speed) s = async_turn_on_D sss tr speed s"
| "invoke_D sss tr Turn_off s = async_turn_off_D tr s"
| "invoke_D sss tr (Set_speed speed) s = async_set_speed_D sss tr speed s"
| "invoke_D sss tr _ s = (Inl (AttributeError ''method''), s)"

section \<open>A scripted device\<close>

text \<open>A transport for examples: the device gives the listed answers to the calls in the
  order in which they arrive, and raises a device exception once the list is used up.\<close>

definition scripted :: "(error + pyval) list \<Rightarrow> transport" where
  "scripted answers w c =
     (if length w < length answers then answers ! length w
      else Inl (DeviceException ''no reply''))"

section \<open>The polling contract, as the specification words it\<close>

text \<open>
  The specification describes the poll independently of the loop: the name list is
  partitioned into batches of at most four names in the original order, one call is made
  per batch, and the returned value lists are concatenated in call order.  \<open>batches\<close> is
  that partition; \<open>replay\<close> feeds a list of calls to the transport one after the other
  and collects the value lists returned, if every call returns one.
\<close>

function batches :: "'a list \<Rightarrow> 'a list list" where
  "batches xs = (if xs = [] then [] else take 4 xs # batches (drop 4 xs))"
  by pat_completeness auto
termination
  by (relation "measure length") auto

declare batches.simps [simp del]

fun replay :: "transport \<Rightarrow> call list \<Rightarrow> call list \<Rightarrow> pyval list list option" where
  "replay tr w [] = Some []"
| "replay tr w (c # cs) =
     (case tr w c of
        Inl e \<Rightarrow> None
      | Inr r \<Rightarrow>
          (case py_iter r of
             Inl e \<Rightarrow> None
           | Inr vs \<Rightarrow> map_option ((#) vs) (replay tr (w @ [c]) cs)))"

section \<open>Properties of the command dispatcher\<close>

lemma py_eq_SUCCESS: "py_eq r SUCCESS \<longleftrightarrow> r = PList [PStr ''ok'']"
proof (cases r)
  case (PList xs)
  show ?thesis
  proof (cases xs)
    case Nil
    with PList show ?thesis by (simp add: SUCCESS_def)
  next
    case (Cons x ys)
    with PList show ?thesis
      by (cases x; cases ys) (simp_all add: SUCCESS_def)
  qed
qed (simp_all add: SUCCESS_def)

text \<open>
  Claim C2.  Whatever value \<open>r\<close> the transport returns for a command,
  \<^verbatim>\<open>_try_command\<close> returns normally, and the boolean it returns is true exactly when
  \<open>r\<close> is the one-element list \<^verbatim>\<open>["ok"]\<close>.
\<close>

theorem try_command_success_iff:
  "tr (wire s) (command, parameters) = Inr r \<Longrightarrow>
   fst (try_command tr mask_error command parameters s) = Inr (r = PList [PStr ''ok''])"
  by (simp add: try_command_def py_eq_SUCCESS)

theorem try_command_success_iff_witness:
  "fst (try_command (\<lambda>w c. Inr (PList [PStr ''ok''])) ''Turning the miio device on failed.''
          ''set_power'' (PList [PBool True]) (init tables_Device ''dmaker.airfresh.a1'')) = Inr True
   \<and> fst (try_command (\<lambda>w c. Inr (PList [PStr ''ok'', PStr ''ok''])) ''Turning the miio device on failed.''
          ''set_power'' (PList [PBool True]) (init tables_Device ''dmaker.airfresh.a1'')) = Inr False
   \<and> fst (try_command (\<lambda>w c. Inr (PStr ''ok'')) ''Turning the miio device on failed.''
          ''set_power'' (PList [PBool True]) (init tables_Device ''dmaker.airfresh.a1'')) = Inr False"
  using
    try_command_success_iff [of "\<lambda>w c. Inr (PList [PStr ''ok''])"
      "init tables_Device ''dmaker.airfresh.a1''" "''set_power''" "PList [PBool True]"
      "PList [PStr ''ok'']" "''Turning the miio device on failed.''"]
    try_command_success_iff [of "\<lambda>w c. Inr (PList [PStr ''ok'', PStr ''ok''])"
      "init tables_Device ''dmaker.airfresh.a1''" "''set_power''" "PList [PBool True]"
      "PList [PStr ''ok'', PStr ''ok'']" "''Turning the miio device on failed.''"]
    try_command_success_iff [of "\<lambda>w c. Inr (PStr ''ok'')"
      "init tables_Device ''dmaker.airfresh.a1''" "''set_power''" "PList [PBool True]"
      "PStr ''ok''" "''Turning the miio device on failed.''"]
  by simp

text \<open>
  Claim C4.  When the transport raises a device exception for a command,
  \<^verbatim>\<open>_try_command\<close> returns \<^verbatim>\<open>False\<close> normally (nothing is propagated); the entity
  afterwards differs from the entity before in exactly three ways: the call is on the
  wire, one error record with the caller's message template and the exception has been
  logged, and the availability flag is false.
\<close>

theorem try_command_exception:
  "tr (wire s) (command, parameters) = Inl (DeviceException exc) \<Longrightarrow>
   try_command tr mask_error command parameters s =
     (Inr False,
      s\<lparr>available := False,
        wire := wire s @ [(command, parameters)],
        logged := logged s @ [(ERROR, mask_error, [LExc (DeviceException exc)])]\<rparr>)"
  by (simp add: try_command_def log_def)

theorem try_command_exception_witness:
  "try_command (\<lambda>w c. Inl (DeviceException ''timeout'')) ''Turning the miio device on failed.''
     ''set_power'' (PList [PBool True])
     \<lparr>available = True, state = Some False, state_attrs = Map.empty, skip_update = False,
      wire = [], logged = []\<rparr> =
   (Inr False,
    \<lparr>available = False, state = Some False, state_attrs = Map.empty, skip_update = False,
     wire = [(''set_power'', PList [PBool True])],
     logged = [(ERROR, ''Turning the miio device on failed.'',
                [LExc (DeviceException ''timeout'')])]\<rparr>)"
  using try_command_exception [of "\<lambda>w c. Inl (DeviceException ''timeout'')"
      "\<lparr>available = True, state = Some False, state_attrs = Map.empty,
        skip_update = False, wire = [], logged = []\<rparr>"
      "''set_power''" "PList [PBool True]" "''timeout''"
      "''Turning the miio device on failed.''"]
  by simp

text \<open>
  Claim C10.  When the transport returns, without an exception, a value other than
  \<^verbatim>\<open>["ok"]\<close>, \<^verbatim>\<open>_try_command\<close> returns \<^verbatim>\<open>False\<close> and the availability flag, the
  power state, the status attributes and the skip flag are what they were: in
  particular an available entity stays available.
\<close>

theorem try_command_no_op:
  "tr (wire s) (command, parameters) = Inr r \<Longrightarrow> r \<noteq> PList [PStr ''ok''] \<Longrightarrow>
   fst (try_command tr mask_error command parameters s) = Inr False \<and>
   available (snd (try_command tr mask_error command parameters s)) = available s \<and>
   state (snd (try_command tr mask_error command parameters s)) = state s \<and>
   state_attrs (snd (try_command tr mask_error command parameters s)) = state_attrs s \<and>
   skip_update (snd (try_command tr mask_error command parameters s)) = skip_update s"
  by (simp add: try_command_def log_def py_eq_SUCCESS)

theorem try_command_no_op_witness:
  "fst (try_command (\<lambda>w c. Inr (PList [PStr ''error''])) ''Turning the miio device on failed.''
          ''set_power'' (PList [PBool True])
          \<lparr>available = True, state = Some False, state_attrs = Map.empty,
           skip_update = False, wire = [], logged = []\<rparr>) = Inr False \<and>
   available (snd (try_command (\<lambda>w c. Inr (PList [PStr ''error'']))
          ''Turning the miio device on failed.'' ''set_power'' (PList [PBool True])
          \<lparr>available = True, state = Some False, state_attrs = Map.empty,
           skip_update = False, wire = [], logged = []\<rparr>)) = True"
  using try_command_no_op [of "\<lambda>w c. Inr (PList [PStr ''error''])"
      "\<lparr>available = True, state = Some False, state_attrs = Map.empty,
        skip_update = False, wire = [], logged = []\<rparr>"
      "''set_power''" "PList [PBool True]" "PList [PStr ''error'']"
      "''Turning the miio device on failed.''"]
  by simp

section \<open>Properties of the poller\<close>


lemma batches_Nil [simp]: "batches [] = []"
  by (simp add: batches.simps)

lemma batches_nonempty: "xs \<noteq> [] \<Longrightarrow> batches xs = take 4 xs # batches (drop 4 xs)"
  by (subst batches.simps) simp

lemma concat_batches: "concat (batches xs) = xs"
  by (induction xs rule: batches.induct) (subst batches.simps, simp)

lemma length_batches: "length (batches xs) = (length xs + 3) div 4"
proof (induction xs rule: batches.induct)
  case (1 xs)
  show ?case
  proof (cases "xs = []")
    case True
    then show ?thesis by simp
  next
    case False
    have step: "Suc ((length xs - 4 + 3) div 4) = (length xs + 3) div 4"
    proof (cases "4 \<le> length xs")
      case True
      then obtain m where "length xs = m + 4"
        by (metis le_add_diff_inverse2)
      then show ?thesis by simp
    next
      case small: False
      from False have "0 < length xs" by simp
      with small have "length xs = 1 \<or> length xs = 2 \<or> length xs = 3"
        by arith
      then show ?thesis by auto
    qed
    with 1 False show ?thesis
      by (simp add: batches_nonempty)
  qed
qed

lemma batches_le_4: "b \<in> set (batches xs) \<Longrightarrow> length b \<le> 4"
proof (induction xs rule: batches.induct)
  case (1 xs)
  show ?case
  proof (cases "xs = []")
    case True
    with 1 show ?thesis by simp
  next
    case False
    with 1 show ?thesis
      by (auto simp: batches_nonempty)
  qed
qed

lemma get_status_loop_replay:
  "replay tr (wire s) (map get_prop (batches props)) = Some vss \<Longrightarrow>
   get_status_loop tr props vals s =
     (Inr (vals @ concat vss), s\<lparr>wire := wire s @ map get_prop (batches props)\<rparr>)"
proof (induction props arbitrary: vals s vss rule: batches.induct)
  case (1 props)
  show ?case
  proof (cases "props = []")
    case True
    with 1 show ?thesis by (simp add: get_status_loop.simps)
  next
    case False
    from False "1.prems" obtain r vs vss' where
      r: "tr (wire s) (get_prop (take 4 props)) = Inr r" and
      vs: "py_iter r = Inr vs" and
      rest: "replay tr (wire s @ [get_prop (take 4 props)])
               (map get_prop (batches (drop 4 props))) = Some vss'" and
      vss: "vss = vs # vss'"
      by (auto simp: batches_nonempty split: sum.splits)
    let ?s1 = "s\<lparr>wire := wire s @ [get_prop (take 4 props)]\<rparr>"
    from rest have "replay tr (wire ?s1) (map get_prop (batches (drop 4 props))) = Some vss'"
      by simp
    from "1.IH" [OF False this]
    have "get_status_loop tr (drop 4 props) (vals @ vs) ?s1 =
            (Inr ((vals @ vs) @ concat vss'),
             ?s1\<lparr>wire := wire ?s1 @ map get_prop (batches (drop 4 props))\<rparr>)" .
    with False r vs vss show ?thesis
      by (subst get_status_loop.simps) (simp add: batches_nonempty)
  qed
qed

text \<open>
  Claim C1.  If the transport answers each of the batched calls with a list of values
  (\<open>replay\<close> collects the lists \<open>vss\<close>), then \<^verbatim>\<open>get_status\<close> returns the snapshot
  built from the name list zipped with the concatenation of the returned lists in call
  order; the calls it has put on the wire are one \<^verbatim>\<open>get_prop\<close> per batch, in order,
  so for \<open>N\<close> names it has made \<open>(N + 3) div 4\<close> calls, the ceiling of \<open>N / 4\<close>; each
  batch has at most four names, and the batches concatenated are the name list.
\<close>

theorem get_status_batched:
  assumes "replay tr (wire s) (map get_prop (batches (properties t))) = Some vss"
  shows "fst (get_status t tr s) = Inr (dict_of (zip (properties t) (concat vss))) \<and>
         wire (snd (get_status t tr s)) = wire s @ map get_prop (batches (properties t)) \<and>
         length (wire (snd (get_status t tr s))) =
           length (wire s) + (length (properties t) + 3) div 4 \<and>
         length (batches (properties t)) = (length (properties t) + 3) div 4 \<and>
         (\<forall>b \<in> set (batches (properties t)). length b \<le> 4) \<and>
         concat (batches (properties t)) = properties t"
proof -
  from get_status_loop_replay [OF assms, of "[]"]
  have "fst (get_status t tr s) = Inr (dict_of (zip (properties t) (concat vss)))"
    and "wire (snd (get_status t tr s)) = wire s @ map get_prop (batches (properties t))"
    by (simp_all add: get_status_def Let_def log_def)
  then show ?thesis
    by (simp add: length_batches batches_le_4 concat_batches)
qed

text \<open>The example of the specification: the four names of \<^verbatim>\<open>XiaomiAirFreshD\<close>,
  answered in one call by \<^verbatim>\<open>[true, 12, 430, "auto"]\<close>.\<close>

theorem get_status_batched_witness:
  "replay (\<lambda>w c. Inr (PList [PBool True, PInt 12, PInt 430, PStr ''auto''])) []
     (map get_prop (batches [''power'', ''pm25'', ''co2'', ''mode''])) =
     Some [[PBool True, PInt 12, PInt 430, PStr ''auto'']] \<and>
   (case fst (get_status tables_D (\<lambda>w c. Inr (PList [PBool True, PInt 12, PInt 430, PStr ''auto'']))
                (init tables_D ''dmaker.airfresh.a1'')) of
      Inl e \<Rightarrow> False
    | Inr st \<Rightarrow> is_on st = True \<and> pm25 st = PInt 12 \<and> co2 st = PInt 430 \<and> mode st = Inr Auto) \<and>
   wire (snd (get_status tables_D (\<lambda>w c. Inr (PList [PBool True, PInt 12, PInt 430, PStr ''auto'']))
                (init tables_D ''dmaker.airfresh.a1''))) =
     [(''get_prop'', PList [PStr ''power'', PStr ''pm25'', PStr ''co2'', PStr ''mode''])]"
proof -
  let ?tr = "\<lambda>(w :: call list) (c :: call). Inr (PList [PBool True, PInt 12, PInt 430, PStr ''auto'']) :: error + pyval"
  have b: "batches [''power'', ''pm25'', ''co2'', ''mode''] = [[''power'', ''pm25'', ''co2'', ''mode'']]"
    by (simp add: batches.simps)
  have p: "properties tables_D = [''power'', ''pm25'', ''co2'', ''mode'']"
    by (simp add: tables_D_def properties_D_def)
  have w: "wire (init tables_D ''dmaker.airfresh.a1'') = []"
    by (simp add: init_def)
  have h: "replay ?tr (wire (init tables_D ''dmaker.airfresh.a1''))
             (map get_prop (batches (properties tables_D))) =
           Some [[PBool True, PInt 12, PInt 430, PStr ''auto'']]"
    by (simp add: p b w)
  from get_status_batched [OF h] h show ?thesis
    by (simp add: p b w get_prop_def dict_of_def is_on_def power_def pm25_def co2_def mode_def
        data_get_def OperationMode_call_def)
qed

lemma get_status_loop_raises:
  "k < length (batches props) \<Longrightarrow>
   replay tr (wire s) (map get_prop (take k (batches props))) = Some vss \<Longrightarrow>
   tr (wire s @ map get_prop (take k (batches props))) (get_prop (batches props ! k)) = Inl e \<Longrightarrow>
   get_status_loop tr props vals s =
     (Inl e, s\<lparr>wire := wire s @ map get_prop (take (Suc k) (batches props))\<rparr>)"
proof (induction props arbitrary: k vals s vss rule: batches.induct)
  case (1 props)
  from "1.prems"(1) have ne: "props \<noteq> []"
    by (cases "props = []") simp_all
  note b = batches_nonempty [OF ne]
  let ?c = "get_prop (take 4 props)"
  let ?s1 = "s\<lparr>wire := wire s @ [?c]\<rparr>"
  show ?case
  proof (cases k)
    case 0
    with "1.prems" b have "tr (wire s) ?c = Inl e" by simp
    with ne 0 b show ?thesis
      by (subst get_status_loop.simps) simp
  next
    case (Suc k')
    with "1.prems" b obtain r vs vss' where
      r: "tr (wire s) ?c = Inr r" and
      vs: "py_iter r = Inr vs" and
      rest: "replay tr (wire ?s1) (map get_prop (take k' (batches (drop 4 props)))) = Some vss'"
      by (auto split: sum.splits)
    from "1.prems" Suc b have k': "k' < length (batches (drop 4 props))" by simp
    from "1.prems"(3) Suc b
    have e: "tr (wire ?s1 @ map get_prop (take k' (batches (drop 4 props))))
               (get_prop (batches (drop 4 props) ! k')) = Inl e"
      by simp
    from "1.IH" [OF ne k' rest e]
    have "get_status_loop tr (drop 4 props) (vals @ vs) ?s1 =
            (Inl e, ?s1\<lparr>wire := wire ?s1 @ map get_prop (take (Suc k') (batches (drop 4 props)))\<rparr>)" .
    with ne r vs Suc b show ?thesis
      by (subst get_status_loop.simps) simp
  qed
qed

text \<open>
  Claim C3.  A poll in which the transport raises a device exception: the skip flag is
  not set, the first \<open>k\<close> batched calls are answered with lists of values, and the next
  call raises \<^verbatim>\<open>DeviceException\<close>.  Then \<^verbatim>\<open>async_update\<close> returns normally, the
  availability flag is false, and the power state and the status attributes are what
  they were before the poll.
\<close>

theorem async_update_transport_failure:
  assumes "\<not> skip_update s"
    and "k < length (batches (properties t))"
    and "replay tr (wire s) (map get_prop (take k (batches (properties t)))) = Some vss"
    and "tr (wire s @ map get_prop (take k (batches (properties t))))
           (get_prop (batches (properties t) ! k)) = Inl (DeviceException ex)"
  shows "fst (async_update t tr s) = Inr () \<and>
         available (snd (async_update t tr s)) = False \<and>
         state (snd (async_update t tr s)) = state s \<and>
         state_attrs (snd (async_update t tr s)) = state_attrs s"
  using assms(1) get_status_loop_raises [OF assms(2-4), of "[]"]
  by (simp add: async_update_def async_update_try_def get_status_def log_def)

lemma batches_properties_Device:
  "batches (properties tables_Device) =
     [[''power'', ''pm25'', ''co2'', ''temperature_outside''],
      [''favourite_speed'', ''filter_rate'', ''filter_day'', ''control_speed''],
      [''ptc_on'', ''ptc_status'', ''child_lock'', ''sound''],
      [''display'', ''mode'']]"
  by (simp add: batches.simps tables_Device_def properties_Device_def)

theorem async_update_transport_failure_witness:
  "fst (async_update tables_Device
          (scripted [Inr (PList [PBool True, PInt 12, PInt 430, PInt 21])])
          \<lparr>available = True, state = Some False,
           state_attrs = [''pm25'' \<mapsto> PInt 7], skip_update = False,
           wire = [], logged = []\<rparr>) = Inr () \<and>
   available (snd (async_update tables_Device
          (scripted [Inr (PList [PBool True, PInt 12, PInt 430, PInt 21])])
          \<lparr>available = True, state = Some False,
           state_attrs = [''pm25'' \<mapsto> PInt 7], skip_update = False,
           wire = [], logged = []\<rparr>)) = False \<and>
   state (snd (async_update tables_Device
          (scripted [Inr (PList [PBool True, PInt 12, PInt 430, PInt 21])])
          \<lparr>available = True, state = Some False,
           state_attrs = [''pm25'' \<mapsto> PInt 7], skip_update = False,
           wire = [], logged = []\<rparr>)) = Some False \<and>
   state_attrs (snd (async_update tables_Device
          (scripted [Inr (PList [PBool True, PInt 12, PInt 430, PInt 21])])
          \<lparr>available = True, state = Some False,
           state_attrs = [''pm25'' \<mapsto> PInt 7], skip_update = False,
           wire = [], logged = []\<rparr>)) = [''pm25'' \<mapsto> PInt 7]"
proof -
  let ?tr = "scripted [Inr (PList [PBool True, PInt 12, PInt 430, PInt 21])]"
  let ?s = "\<lparr>available = True, state = Some False,
             state_attrs = [''pm25'' \<mapsto> PInt 7], skip_update = False,
             wire = [], logged = []\<rparr>"
  note b = batches_properties_Device
  have h1: "\<not> skip_update ?s" by simp
  have h2: "1 < length (batches (properties tables_Device))"
    by (simp add: b)
  have h3: "replay ?tr (wire ?s) (map get_prop (take 1 (batches (properties tables_Device)))) =
              Some [[PBool True, PInt 12, PInt 430, PInt 21]]"
    by (simp add: b scripted_def)
  have h4: "?tr (wire ?s @ map get_prop (take 1 (batches (properties tables_Device))))
              (get_prop (batches (properties tables_Device) ! 1)) =
            Inl (DeviceException ''no reply'')"
    by (simp add: b scripted_def)
  from async_update_transport_failure [OF h1 h2 h3 h4] show ?thesis
    by simp
qed

subsection \<open>Names missing from the snapshot\<close>

lemma fold_update_map_of:
  "fold (\<lambda>(k, v) m. m(k \<mapsto> v)) kvs m0 = m0 ++ map_of (rev kvs)"
  by (induction kvs arbitrary: m0) (auto simp: map_add_def fun_eq_iff split: option.splits)

lemma dict_of_missing: "k \<notin> fst ` set kvs \<Longrightarrow> dict_of kvs k = None"
  by (simp add: dict_of_def fold_update_map_of map_of_eq_None_iff)

lemma data_get_missing:
  assumes "k \<notin> set (take (length vals) props)"
  shows "data_get (dict_of (zip props vals)) k = PNone"
proof -
  have "map fst (zip props vals) = take (length vals) props"
    by (simp add: map_fst_zip_take min_def)
  then have "fst ` set (zip props vals) = set (take (length vals) props)"
    by (metis set_map)
  with assms show ?thesis
    by (simp add: data_get_def dict_of_missing)
qed

lemma mode_missing:
  "''mode'' \<notin> set (take (length vals) props) \<Longrightarrow>
   mode (dict_of (zip props vals)) = Inl ValueError"
  by (simp add: mode_def data_get_missing OperationMode_call_def)

text \<open>
  Claim C8.  The claim says that with fewer values than names every property of the
  snapshot, \<^verbatim>\<open>mode\<close> included, reads as null and that processing continues.  The code
  reads every plain property of a missing name as \<^verbatim>\<open>None\<close> (\<open>data_get_missing\<close>), but
  the \<^verbatim>\<open>mode\<close> property passes that \<^verbatim>\<open>None\<close> to \<^verbatim>\<open>OperationMode\<close>, which raises
  \<^verbatim>\<open>ValueError\<close> (\<open>mode_missing\<close>).  The theorem runs \<^verbatim>\<open>XiaomiAirFreshDevice\<close> on a
  device that answers the last call, for \<^verbatim>\<open>display\<close> and \<^verbatim>\<open>mode\<close>, with one value:
  the snapshot holds \<^verbatim>\<open>display\<close> and no \<^verbatim>\<open>mode\<close>; reading \<^verbatim>\<open>mode\<close> raises;
  \<^verbatim>\<open>async_update\<close> ends with that \<^verbatim>\<open>ValueError\<close>, after the entity has been marked
  available and before any attribute has been stored.
\<close>

theorem short_reply_mode_raises:
  "(case fst (get_status tables_Device
               (scripted [Inr (PList [PBool True, PInt 12, PInt 430, PInt 21]),
                          Inr (PList [PInt 150, PInt 80, PInt 120, PInt 150]),
                          Inr (PList [PBool False, PBool False, PBool False, PBool True]),
                          Inr (PList [PBool True])])
               (init tables_Device ''dmaker.airfresh.a1'')) of
      Inl e \<Rightarrow> False
    | Inr st \<Rightarrow>
        data_get st ''display'' = PBool True \<and> data_get st ''mode'' = PNone \<and>
        mode st = Inl ValueError) \<and>
   fst (async_update tables_Device
          (scripted [Inr (PList [PBool True, PInt 12, PInt 430, PInt 21]),
                     Inr (PList [PInt 150, PInt 80, PInt 120, PInt 150]),
                     Inr (PList [PBool False, PBool False, PBool False, PBool True]),
                     Inr (PList [PBool True])])
          (init tables_Device ''dmaker.airfresh.a1'')) = Inl ValueError \<and>
   available (snd (async_update tables_Device
          (scripted [Inr (PList [PBool True, PInt 12, PInt 430, PInt 21]),
                     Inr (PList [PInt 150, PInt 80, PInt 120, PInt 150]),
                     Inr (PList [PBool False, PBool False, PBool False, PBool True]),
                     Inr (PList [PBool True])])
          (init tables_Device ''dmaker.airfresh.a1''))) = True \<and>
   state_attrs (snd (async_update tables_Device
          (scripted [Inr (PList [PBool True, PInt 12, PInt 430, PInt 21]),
                     Inr (PList [PInt 150, PInt 80, PInt 120, PInt 150]),
                     Inr (PList [PBool False, PBool False, PBool False, PBool True]),
                     Inr (PList [PBool True])])
          (init tables_Device ''dmaker.airfresh.a1''))) =
     state_attrs (init tables_Device ''dmaker.airfresh.a1'')"
proof -
  let ?tr = "scripted [Inr (PList [PBool True, PInt 12, PInt 430, PInt 21]),
                       Inr (PList [PInt 150, PInt 80, PInt 120, PInt 150]),
                       Inr (PList [PBool False, PBool False, PBool False, PBool True]),
                       Inr (PList [PBool True])]"
  let ?s = "init tables_Device ''dmaker.airfresh.a1''"
  let ?vals = "[PBool True, PInt 12, PInt 430, PInt 21, PInt 150, PInt 80, PInt 120, PInt 150,
                PBool False, PBool False, PBool False, PBool True, PBool True]"
  let ?st = "dict_of (zip (properties tables_Device) ?vals)"
  have w: "wire ?s = []" and sk: "\<not> skip_update ?s"
    by (simp_all add: init_def)
  have "replay ?tr (wire ?s) (map get_prop (batches (properties tables_Device))) =
          Some [[PBool True, PInt 12, PInt 430, PInt 21], [PInt 150, PInt 80, PInt 120, PInt 150],
                [PBool False, PBool False, PBool False, PBool True], [PBool True]]"
    by (simp add: w batches_properties_Device scripted_def)
  from get_status_loop_replay [OF this, of "[]"]
  have loop: "get_status_loop ?tr (properties tables_Device) [] ?s =
                (Inr ?vals, ?s\<lparr>wire := map get_prop (batches (properties tables_Device))\<rparr>)"
    by (simp add: w)
  have len: "length (properties tables_Device) = 14"
    by (simp add: tables_Device_def properties_Device_def)
  obtain s2 where gs: "get_status tables_Device ?tr ?s = (Inr ?st, s2)"
    and fr: "state_attrs s2 = state_attrs ?s"
    by (simp add: get_status_def loop len log_def)
  have md: "mode ?st = Inl ValueError"
    by (rule mode_missing) (simp add: tables_Device_def properties_Device_def)
  have mn: "data_get ?st ''mode'' = PNone"
    by (rule data_get_missing) (simp add: tables_Device_def properties_Device_def)
  have dp: "data_get ?st ''display'' = PBool True"
    by (simp add: data_get_def dict_of_def tables_Device_def properties_Device_def)
  have pw: "is_on ?st"
    by (simp add: is_on_def power_def data_get_def dict_of_def tables_Device_def
        properties_Device_def)
  have pm: "extract_value_from_attribute (plain_properties tables_Device) ?st ''pm25'' =
              Inr (PInt 12)"
    by (simp add: extract_value_from_attribute_def getattr_status_def data_get_def dict_of_def
        tables_Device_def properties_Device_def plain_properties_Device_def)
  have co: "extract_value_from_attribute (plain_properties tables_Device) ?st ''co2'' =
              Inr (PInt 430)"
    by (simp add: extract_value_from_attribute_def getattr_status_def data_get_def dict_of_def
        tables_Device_def properties_Device_def plain_properties_Device_def)
  have mo: "extract_value_from_attribute (plain_properties tables_Device) ?st ''mode'' =
              Inl ValueError"
    by (simp add: extract_value_from_attribute_def getattr_status_def md)
  have ex: "extract_all (plain_properties tables_Device) ?st
              (available_attributes tables_Device) = Inl ValueError"
    using pm co mo
    by (simp add: tables_Device_def AVAILABLE_ATTRIBUTES_AIRFRESH_Device_def)
  have tb: "async_update_try tables_Device ?tr ?s =
              (Inl ValueError,
               (log DEBUG ''Got new state: %s'' [LStatus ?st] s2)
               \<lparr>available := True, state := Some True\<rparr>)"
    using pw ex by (simp add: async_update_try_def gs)
  from tb sk fr gs md mn dp show ?thesis
    by (simp add: async_update_def log_def)
qed

section \<open>Properties of turning on and setting the speed\<close>


lemma and_self_zero: "(supported_features sss AND sss = 0) \<longleftrightarrow> sss = 0"
  by (simp add: supported_features_def)

lemma title_Favourite: "title ''Favourite'' = ''Favourite''"
  by (simp add: title_def islower_def isupper_def toupper_def tolower_def
      ascii_lowercase_def ascii_uppercase_def)

lemma wire_log [simp]: "wire (log lvl msg args s) = wire s"
  by (simp add: log_def)

lemma wire_try_command:
  "wire (snd (try_command tr mask_error command parameters s)) = wire s @ [(command, parameters)]"
  by (simp add: try_command_def Let_def split: sum.splits error.splits)

lemma wire_send_raw_cmd:
  "wire (snd (send_raw_cmd tr mask_error command parameters s)) = wire s @ [(command, parameters)]"
  by (simp add: send_raw_cmd_def wire_try_command)

lemma snd_discard [simp]: "snd (discard r) = snd r"
  by (simp add: discard_def split: prod.splits sum.splits)

lemma wire_async_turn_off_Device:
  "wire (snd (async_turn_off_Device tr s)) = wire s @ [(''set_power'', PList [PBool False])]"
  by (simp add: async_turn_off_Device_def wire_send_raw_cmd)

lemma wire_async_turn_off_D:
  "wire (snd (async_turn_off_D tr s)) = wire s @ [(''set_power'', PList [PBool False])]"
proof (cases "send_raw_cmd tr ''Turning the miio device off failed.''
               ''set_power'' (PList [PBool False]) s")
  case (Pair r s1)
  with wire_send_raw_cmd [of tr "''Turning the miio device off failed.''" "''set_power''"
      "PList [PBool False]" s]
  show ?thesis
    by (cases r) (simp_all add: async_turn_off_D_def)
qed

lemma title_from_length [simp]: "length (title_from p s) = length s"
  by (induction s arbitrary: p) auto

lemma toupper_O: "islower c \<Longrightarrow> toupper c = CHR ''O'' \<Longrightarrow> c = CHR ''o''"
  by (auto simp: islower_def toupper_def ascii_lowercase_def ascii_uppercase_def)

lemma tolower_f: "isupper c \<Longrightarrow> tolower c = CHR ''f'' \<Longrightarrow> c = CHR ''F''"
  by (auto simp: isupper_def tolower_def ascii_lowercase_def ascii_uppercase_def)

lemma not_both: "islower c \<Longrightarrow> \<not> isupper c"
  by (auto simp: islower_def isupper_def ascii_lowercase_def ascii_uppercase_def)

lemma title_Off_iff:
  "title speed = ''Off'' \<longleftrightarrow>
   speed \<in> {''off'', ''ofF'', ''oFf'', ''oFF'', ''Off'', ''OfF'', ''OFf'', ''OFF''}"
proof
  assume t: "title speed = ''Off''"
  then have "length speed = 3"
    by (metis title_def title_from_length length_Cons list.size(3) numeral_3_eq_3)
  then obtain a b c where s: "speed = [a, b, c]"
    by (metis (no_types, opaque_lifting) length_0_conv length_Suc_conv numeral_3_eq_3)
  have f: "islower (CHR ''f'')" "isupper (CHR ''O'')" "isupper (CHR ''F'')"  "islower (CHR ''o'')"
    by (simp_all add: islower_def isupper_def ascii_lowercase_def ascii_uppercase_def)
  from t s have a: "a = CHR ''o'' \<or> a = CHR ''O''"
    by (auto simp: title_def split: if_splits dest: toupper_O)
  from t s a f have b: "b = CHR ''f'' \<or> b = CHR ''F''"
    by (auto simp: title_def not_both split: if_splits dest: tolower_f)
  from t s a b f have c: "c = CHR ''f'' \<or> c = CHR ''F''"
    by (auto simp: title_def not_both split: if_splits dest: tolower_f)
  from s a b c show "speed \<in> {''off'', ''ofF'', ''oFf'', ''oFF'', ''Off'', ''OfF'', ''OFf'', ''OFF''}"
    by auto
next
  assume "speed \<in> {''off'', ''ofF'', ''oFf'', ''oFF'', ''Off'', ''OfF'', ''OFf'', ''OFF''}"
  then show "title speed = ''Off''"
    by (auto simp: title_def islower_def isupper_def toupper_def tolower_def
        ascii_lowercase_def ascii_uppercase_def)
qed

text \<open>
  Claim C6.  With \<^verbatim>\<open>SUPPORT_SET_SPEED\<close> non-zero, turning on with the speed
  \<^verbatim>\<open>"Favourite"\<close> is the same computation as setting the speed \<^verbatim>\<open>"Favourite"\<close>, and the
  one call it puts on the wire is \<^verbatim>\<open>set_mode\<close> with the value \<^verbatim>\<open>"favourite"\<close>: no
  \<^verbatim>\<open>set_power\<close> is sent.  This holds in both entity classes.
\<close>

theorem turn_on_favourite_sets_mode:
  assumes "sss \<noteq> 0"
  shows "async_turn_on_Device sss tr (Some ''Favourite'') s =
           async_set_speed_Device sss tr ''Favourite'' s \<and>
         wire (snd (async_turn_on_Device sss tr (Some ''Favourite'') s)) =
           wire s @ [(''set_mode'', PStr ''favourite'')] \<and>
         async_turn_on_D sss tr (Some ''Favourite'') s =
           async_set_speed_D sss tr ''Favourite'' s \<and>
         wire (snd (async_turn_on_D sss tr (Some ''Favourite'') s)) =
           wire s @ [(''set_mode'', PStr ''favourite'')]"
proof -
  have 1: "async_turn_on_Device sss tr (Some ''Favourite'') s =
             async_set_speed_Device sss tr ''Favourite'' s"
    by (simp add: async_turn_on_Device_def)
  have 2: "wire (snd (async_set_speed_Device sss tr ''Favourite'' s)) =
             wire s @ [(''set_mode'', PStr ''favourite'')]"
    using assms
    by (simp add: async_set_speed_Device_def title_Favourite OperationMode_getitem_def
        wire_send_raw_cmd)
  have 3: "async_turn_on_D sss tr (Some ''Favourite'') s =
             async_set_speed_D sss tr ''Favourite'' s"
    by (cases "async_set_speed_D sss tr ''Favourite'' s")
       (simp add: async_turn_on_D_def split: sum.splits)
  have 4: "wire (snd (async_set_speed_D sss tr ''Favourite'' s)) =
             wire s @ [(''set_mode'', PStr ''favourite'')]"
    using assms
    by (simp add: async_set_speed_D_def and_self_zero title_Favourite OperationMode_getitem_def
        wire_send_raw_cmd)
  from 1 2 3 4 show ?thesis by simp
qed

theorem turn_on_favourite_sets_mode_witness:
  "(1::int) \<noteq> 0 \<and>
   wire (snd (async_turn_on_Device 1 (scripted [Inr (PList [PStr ''ok''])]) (Some ''Favourite'')
                (init tables_Device ''dmaker.airfresh.a1''))) =
     [(''set_mode'', PStr ''favourite'')] \<and>
   wire (snd (async_turn_on_D 1 (scripted [Inr (PList [PStr ''ok''])]) (Some ''Favourite'')
                (init tables_D ''dmaker.airfresh.a1''))) =
     [(''set_mode'', PStr ''favourite'')]"
proof -
  have w: "wire (init t m) = []" for t m
    by (simp add: init_def)
  have n: "(1::int) \<noteq> 0" by simp
  note inst = turn_on_favourite_sets_mode [OF n, of "scripted [Inr (PList [PStr ''ok''])]"]
  from inst [of "init tables_Device ''dmaker.airfresh.a1''", THEN conjunct2, THEN conjunct1]
  have a: "wire (snd (async_turn_on_Device 1 (scripted [Inr (PList [PStr ''ok''])])
                        (Some ''Favourite'') (init tables_Device ''dmaker.airfresh.a1''))) =
             [(''set_mode'', PStr ''favourite'')]"
    by (simp add: w)
  from inst [of "init tables_D ''dmaker.airfresh.a1''", THEN conjunct2, THEN conjunct2,
      THEN conjunct2]
  have b: "wire (snd (async_turn_on_D 1 (scripted [Inr (PList [PStr ''ok''])])
                        (Some ''Favourite'') (init tables_D ''dmaker.airfresh.a1''))) =
             [(''set_mode'', PStr ''favourite'')]"
    by (simp add: w)
  from a b show ?thesis by simp
qed

text \<open>
  Claim C7.  With \<^verbatim>\<open>SUPPORT_SET_SPEED\<close> non-zero, setting a speed whose title-cased form
  is \<^verbatim>\<open>"Off"\<close> (by \<open>title_Off_iff\<close>: any of the eight spellings of \<^verbatim>\<open>off\<close> in
  upper and lower case) is the turn-off method run after the debug record, and the one
  call it puts on the wire is \<^verbatim>\<open>set_power\<close> with \<^verbatim>\<open>[False]\<close>: no \<^verbatim>\<open>set_mode\<close> is
  sent.  This holds in both entity classes.
\<close>

theorem set_speed_off_turns_off:
  assumes "sss \<noteq> 0" and "title speed = ''Off''"
  shows "async_set_speed_Device sss tr speed s =
           async_turn_off_Device tr
             (log DEBUG ''Setting the operation mode to: %s'' [LVal (PStr speed)] s) \<and>
         wire (snd (async_set_speed_Device sss tr speed s)) =
           wire s @ [(''set_power'', PList [PBool False])] \<and>
         async_set_speed_D sss tr speed s =
           async_turn_off_D tr
             (log DEBUG ''Setting the operation mode to: %s'' [LVal (PStr speed)] s) \<and>
         wire (snd (async_set_speed_D sss tr speed s)) =
           wire s @ [(''set_power'', PList [PBool False])]"
  using assms
  by (simp add: async_set_speed_Device_def async_set_speed_D_def and_self_zero
      OperationMode_getitem_def wire_async_turn_off_Device wire_async_turn_off_D)

theorem set_speed_off_turns_off_witness:
  "(1::int) \<noteq> 0 \<and> title ''oFF'' = ''Off'' \<and>
   wire (snd (async_set_speed_Device 1 (scripted [Inr (PList [PStr ''ok''])]) ''oFF''
                (init tables_Device ''dmaker.airfresh.a1''))) =
     [(''set_power'', PList [PBool False])] \<and>
   wire (snd (async_set_speed_D 1 (scripted [Inr (PList [PStr ''ok''])]) ''oFF''
                (init tables_D ''dmaker.airfresh.a1''))) =
     [(''set_power'', PList [PBool False])]"
proof -
  have t: "title ''oFF'' = ''Off''"
    by (simp add: title_Off_iff)
  have n: "(1::int) \<noteq> 0" by simp
  have w: "wire (init t m) = []" for t m
    by (simp add: init_def)
  note inst = set_speed_off_turns_off [OF n t, of "scripted [Inr (PList [PStr ''ok''])]"]
  from inst [of "init tables_Device ''dmaker.airfresh.a1''", THEN conjunct2, THEN conjunct1]
  have a: "wire (snd (async_set_speed_Device 1 (scripted [Inr (PList [PStr ''ok''])]) ''oFF''
                        (init tables_Device ''dmaker.airfresh.a1''))) =
             [(''set_power'', PList [PBool False])]"
    by (simp add: w)
  from inst [of "init tables_D ''dmaker.airfresh.a1''", THEN conjunct2, THEN conjunct2,
      THEN conjunct2]
  have b: "wire (snd (async_set_speed_D 1 (scripted [Inr (PList [PStr ''ok''])]) ''oFF''
                        (init tables_D ''dmaker.airfresh.a1''))) =
             [(''set_power'', PList [PBool False])]"
    by (simp add: w)
  from a b t show ?thesis by simp
qed

section \<open>Properties of the entity state\<close>

subsection \<open>What a command and a poll change\<close>

lemma log_fields [simp]:
  "available (log lvl msg args s) = available s"
  "state (log lvl msg args s) = state s"
  "state_attrs (log lvl msg args s) = state_attrs s"
  "skip_update (log lvl msg args s) = skip_update s"
  by (simp_all add: log_def)

lemma try_command_frame:
  "state (snd (try_command tr mask_error command parameters s)) = state s"
  "state_attrs (snd (try_command tr mask_error command parameters s)) = state_attrs s"
  "skip_update (snd (try_command tr mask_error command parameters s)) = skip_update s"
  by (simp_all add: try_command_def Let_def split: sum.splits error.splits)

lemma available_try_command:
  "available (snd (try_command tr mask_error command parameters s)) =
     (available s \<and> (\<forall>exc. tr (wire s) (command, parameters) \<noteq> Inl (DeviceException exc)))"
  by (simp add: try_command_def Let_def split: sum.splits error.splits)

lemma send_raw_cmd_frame:
  "state (snd (send_raw_cmd tr mask_error command parameters s)) = state s"
  "state_attrs (snd (send_raw_cmd tr mask_error command parameters s)) = state_attrs s"
  "skip_update (snd (send_raw_cmd tr mask_error command parameters s)) = skip_update s"
  by (simp_all add: send_raw_cmd_def try_command_frame)

lemma available_send_raw_cmd:
  "available (snd (send_raw_cmd tr mask_error command parameters s)) =
     (available s \<and> (\<forall>exc. tr (wire s) (command, parameters) \<noteq> Inl (DeviceException exc)))"
  by (simp add: send_raw_cmd_def available_try_command)

lemma fst_send_raw_cmd_ok:
  "tr (wire s) (command, parameters) = Inr (PList [PStr ''ok'']) \<Longrightarrow>
   fst (send_raw_cmd tr mask_error command parameters s) = Inr True"
  by (simp add: send_raw_cmd_def try_command_def SUCCESS_def)

lemma fst_send_raw_cmd_not_ok:
  "tr (wire s) (command, parameters) \<noteq> Inr (PList [PStr ''ok'']) \<Longrightarrow>
   fst (send_raw_cmd tr mask_error command parameters s) \<noteq> Inr True"
  by (auto simp add: send_raw_cmd_def try_command_def py_eq_SUCCESS Let_def
      split: sum.splits error.splits)

lemma async_update_skip:
  "skip_update s \<Longrightarrow> async_update t tr s = (Inr (), s\<lparr>skip_update := False\<rparr>)"
  by (simp add: async_update_def)

lemma get_status_loop_frame:
  "get_status_loop tr props vals s = (r, s') \<Longrightarrow>
   available s' = available s \<and> state s' = state s \<and> state_attrs s' = state_attrs s \<and>
   skip_update s' = skip_update s \<and> logged s' = logged s"
proof (induction tr props vals s rule: get_status_loop.induct)
  case (1 tr props vals s)
  show ?case
  proof (cases "props = []")
    case True
    with "1.prems" show ?thesis by (simp add: get_status_loop.simps)
  next
    case False
    show ?thesis
    proof (cases "tr (wire s) (get_prop (take 4 props))")
      case (Inl e)
      with False "1.prems" show ?thesis
        by (subst (asm) get_status_loop.simps) auto
    next
      case (Inr a)
      show ?thesis
      proof (cases "py_iter a")
        case (Inl e)
        with False Inr "1.prems" show ?thesis
          by (subst (asm) get_status_loop.simps) auto
      next
        case vs: (Inr vs)
        from False Inr vs "1.prems"
        have "get_status_loop tr (drop 4 props) (vals @ vs)
                (s\<lparr>wire := wire s @ [get_prop (take 4 props)]\<rparr>) = (r, s')"
          by (subst (asm) get_status_loop.simps) simp
        from "1.IH" [OF False refl refl Inr vs this] show ?thesis by simp
      qed
    qed
  qed
qed

lemma available_get_status: "available (snd (get_status t tr s)) = available s"
proof (cases "get_status_loop tr (properties t) [] s")
  case (Pair r s1)
  with get_status_loop_frame [OF Pair] show ?thesis
    by (cases r) (simp_all add: get_status_def Let_def)
qed

lemma extract_value_no_DeviceException:
  "extract_value_from_attribute plain st a \<noteq> Inl (DeviceException ex)"
  by (auto simp: extract_value_from_attribute_def getattr_status_def mode_def
      OperationMode_call_def split: sum.splits attr_value.splits if_splits)

lemma extract_all_no_DeviceException:
  "extract_all plain st attrs \<noteq> Inl (DeviceException ex)"
proof (induction attrs)
  case Nil
  show ?case by simp
next
  case (Cons a attrs)
  obtain key attribute where a: "a = (key, attribute)" by (cases a)
  from Cons extract_value_no_DeviceException [of plain st attribute ex] show ?case
    by (auto simp: a split: sum.splits)
qed

lemma available_async_update:
  "available (snd (async_update t tr s)) =
     (if skip_update s then available s
      else case fst (get_status t tr s) of
             Inl (DeviceException ex) \<Rightarrow> False
           | Inl e \<Rightarrow> available s
           | Inr st \<Rightarrow> True)"
proof (cases "skip_update s")
  case True
  then show ?thesis by (simp add: async_update_def)
next
  case False
  obtain r s1 where g: "get_status t tr s = (r, s1)" by (cases "get_status t tr s")
  with available_get_status [of t tr s] have av: "available s1 = available s" by simp
  show ?thesis
  proof (cases r)
    case (Inl e)
    with False g av show ?thesis
      by (cases e) (simp_all add: async_update_def async_update_try_def)
  next
    case (Inr st)
    show ?thesis
    proof (cases "extract_all (plain_properties t) st (available_attributes t)")
      case (Inl e)
      with extract_all_no_DeviceException [of "plain_properties t" st "available_attributes t"]
      have "\<And>ex. e \<noteq> DeviceException ex" by auto
      with Inl Inr False g show ?thesis
        by (cases e) (auto simp: async_update_def async_update_try_def Let_def)
    next
      case kvs: (Inr kvs)
      with Inr False g show ?thesis
        by (simp add: async_update_def async_update_try_def Let_def update_attrs_def)
    qed
  qed
qed

lemma fst_get_status_replay:
  "replay tr (wire s) (map get_prop (batches (properties t))) = Some vss \<Longrightarrow>
   fst (get_status t tr s) = Inr (dict_of (zip (properties t) (concat vss)))"
  using get_status_loop_replay [of tr s "properties t" vss "[]"]
  by (simp add: get_status_def Let_def)

lemma failed_Device:
  "wire (snd (invoke_Device sss tr op s)) = wire s @ [c] \<Longrightarrow>
   tr (wire s) c = Inl (DeviceException exc) \<Longrightarrow>
   \<not> available (snd (invoke_Device sss tr op s))"
  by (cases op)
     (auto simp: async_turn_on_Device_def async_set_speed_Device_def async_turn_off_Device_def
        async_set_ptc_on_def async_set_ptc_off_def async_set_favourite_speed_def
        async_set_sound_on_def async_set_sound_off_def async_set_display_on_def
        async_set_display_off_def async_set_filter_reset_def
        wire_send_raw_cmd available_send_raw_cmd Let_def
        split: sum.splits if_splits)

lemma never_available_Device:
  "available (snd (invoke_Device sss tr op s)) \<Longrightarrow> available s"
  by (cases op)
     (auto simp: async_turn_on_Device_def async_set_speed_Device_def async_turn_off_Device_def
        async_set_ptc_on_def async_set_ptc_off_def async_set_favourite_speed_def
        async_set_sound_on_def async_set_sound_off_def async_set_display_on_def
        async_set_display_off_def async_set_filter_reset_def
        wire_send_raw_cmd available_send_raw_cmd Let_def
        split: sum.splits if_splits)

lemma frame_Device:
  "state (snd (invoke_Device sss tr op s)) = state s \<and>
   skip_update (snd (invoke_Device sss tr op s)) = skip_update s \<and>
   state_attrs (snd (invoke_Device sss tr op s)) = state_attrs s"
  by (cases op)
     (auto simp: async_turn_on_Device_def async_set_speed_Device_def async_turn_off_Device_def
        async_set_ptc_on_def async_set_ptc_off_def async_set_favourite_speed_def
        async_set_sound_on_def async_set_sound_off_def async_set_display_on_def
        async_set_display_off_def async_set_filter_reset_def
        send_raw_cmd_frame Let_def
        split: sum.splits if_splits)

lemma async_turn_on_D_given:
  "given speed \<Longrightarrow> async_turn_on_D sss tr speed s = async_set_speed_D sss tr (the speed) s"
  by (cases "async_set_speed_D sss tr (the speed) s")
     (simp add: async_turn_on_D_def split: sum.splits)

lemma async_turn_on_D_not_given:
  "\<not> given speed \<Longrightarrow>
   async_turn_on_D sss tr speed s =
     (case send_raw_cmd tr ''Turning the miio device on failed.''
             ''set_power'' (PList [PBool True]) s of
        (Inl e, s1) \<Rightarrow> (Inl e, s1)
      | (Inr b, s1) \<Rightarrow>
          (Inr (), if b then s1\<lparr>state := Some True, skip_update := True\<rparr> else s1))"
  by (simp add: async_turn_on_D_def split: prod.splits sum.splits)

lemma available_async_turn_off_D:
  "available (snd (async_turn_off_D tr s)) =
     (available s \<and>
      (\<forall>exc. tr (wire s) (''set_power'', PList [PBool False]) \<noteq> Inl (DeviceException exc)))"
proof (cases "send_raw_cmd tr ''Turning the miio device off failed.''
               ''set_power'' (PList [PBool False]) s")
  case (Pair r s1)
  with available_send_raw_cmd [of tr "''Turning the miio device off failed.''" "''set_power''"
      "PList [PBool False]" s]
  show ?thesis
    by (cases r) (simp_all add: async_turn_off_D_def)
qed

lemma wire_async_turn_on_D_not_given:
  assumes "\<not> given speed"
  shows "wire (snd (async_turn_on_D sss tr speed s)) =
           wire s @ [(''set_power'', PList [PBool True])]"
proof (cases "send_raw_cmd tr ''Turning the miio device on failed.''
               ''set_power'' (PList [PBool True]) s")
  case (Pair r s1)
  with wire_send_raw_cmd [of tr "''Turning the miio device on failed.''" "''set_power''"
      "PList [PBool True]" s]
  show ?thesis
    by (cases r) (simp_all add: async_turn_on_D_not_given [OF assms])
qed

lemma available_async_turn_on_D_not_given:
  assumes "\<not> given speed"
  shows "available (snd (async_turn_on_D sss tr speed s)) =
     (available s \<and>
      (\<forall>exc. tr (wire s) (''set_power'', PList [PBool True]) \<noteq> Inl (DeviceException exc)))"
proof (cases "send_raw_cmd tr ''Turning the miio device on failed.''
               ''set_power'' (PList [PBool True]) s")
  case (Pair r s1)
  with available_send_raw_cmd [of tr "''Turning the miio device on failed.''" "''set_power''"
      "PList [PBool True]" s]
  show ?thesis
    by (cases r) (simp_all add: async_turn_on_D_not_given [OF assms])
qed

lemma failed_set_speed_D:
  "wire (snd (async_set_speed_D sss tr speed s)) = wire s @ [c] \<Longrightarrow>
   tr (wire s) c = Inl (DeviceException exc) \<Longrightarrow>
   \<not> available (snd (async_set_speed_D sss tr speed s))"
  by (auto simp: async_set_speed_D_def wire_async_turn_off_D available_async_turn_off_D
      wire_send_raw_cmd available_send_raw_cmd Let_def split: sum.splits if_splits)

lemma never_available_set_speed_D:
  "available (snd (async_set_speed_D sss tr speed s)) \<Longrightarrow> available s"
  by (auto simp: async_set_speed_D_def available_async_turn_off_D
      available_send_raw_cmd Let_def split: sum.splits if_splits)

lemma failed_D:
  "wire (snd (invoke_D sss tr op s)) = wire s @ [c] \<Longrightarrow>
   tr (wire s) c = Inl (DeviceException exc) \<Longrightarrow>
   \<not> available (snd (invoke_D sss tr op s))"
proof (cases op)
  case (Turn_on speed)
  assume "wire (snd (invoke_D sss tr op s)) = wire s @ [c]"
    and "tr (wire s) c = Inl (DeviceException exc)"
  with Turn_on show ?thesis
    by (cases "given speed")
       (auto simp: async_turn_on_D_given failed_set_speed_D wire_async_turn_on_D_not_given
          available_async_turn_on_D_not_given)
next
  case Turn_off
  assume "wire (snd (invoke_D sss tr op s)) = wire s @ [c]"
    and "tr (wire s) c = Inl (DeviceException exc)"
  with Turn_off show ?thesis
    by (auto simp: wire_async_turn_off_D available_async_turn_off_D)
next
  case (Set_speed speed)
  assume "wire (snd (invoke_D sss tr op s)) = wire s @ [c]"
    and "tr (wire s) c = Inl (DeviceException exc)"
  with Set_speed show ?thesis
    by (simp add: failed_set_speed_D)
qed simp_all

lemma never_available_D:
  "available (snd (invoke_D sss tr op s)) \<Longrightarrow> available s"
proof (cases op)
  case (Turn_on speed)
  assume "available (snd (invoke_D sss tr op s))"
  with Turn_on show ?thesis
    by (cases "given speed")
       (auto simp: async_turn_on_D_given available_async_turn_on_D_not_given
          dest: never_available_set_speed_D)
next
  case Turn_off
  assume "available (snd (invoke_D sss tr op s))"
  with Turn_off show ?thesis
    by (simp add: available_async_turn_off_D)
next
  case (Set_speed speed)
  assume "available (snd (invoke_D sss tr op s))"
  with Set_speed show ?thesis
    by (auto dest: never_available_set_speed_D)
qed simp_all

lemma init_fields [simp]:
  "available (init t m) = False"
  "state (init t m) = None"
  "skip_update (init t m) = False"
  "wire (init t m) = []"
  "logged (init t m) = []"
  by (simp_all add: init_def)

lemma scripted_first [simp]: "scripted (a # as) [] c = a"
  by (simp add: scripted_def)

lemma scripted_Nil [simp]: "scripted [] w c = Inl (DeviceException ''no reply'')"
  by (simp add: scripted_def)

lemma title_Auto: "title ''Auto'' = ''Auto''"
  by (simp add: title_def islower_def isupper_def toupper_def tolower_def
      ascii_lowercase_def ascii_uppercase_def)

subsection \<open>Optimistic power state\<close>

text \<open>
  Claim C5, as stated, fails on the code.  In \<^verbatim>\<open>XiaomiAirFreshDevice\<close> a turn-on that the
  device accepts with \<^verbatim>\<open>["ok"]\<close> leaves the power state unknown and the skip flag
  unset: that class has no optimistic update.  In \<^verbatim>\<open>XiaomiAirFreshD\<close> a turn-on with a
  speed sends \<^verbatim>\<open>set_mode\<close>, and when the device accepts it the power state and the skip
  flag are untouched as well, because the result tested is that of \<^verbatim>\<open>async_set_speed\<close>,
  which is \<^verbatim>\<open>None\<close>.
\<close>

theorem turn_on_without_optimistic_state:
  "fst (send_raw_cmd (scripted [Inr (PList [PStr ''ok''])]) ''Turning the miio device on failed.''
          ''set_power'' (PList [PBool True]) (init tables_Device ''dmaker.airfresh.a1'')) = Inr True \<and>
   state (snd (async_turn_on_Device 1 (scripted [Inr (PList [PStr ''ok''])]) None
                 (init tables_Device ''dmaker.airfresh.a1''))) = None \<and>
   \<not> skip_update (snd (async_turn_on_Device 1 (scripted [Inr (PList [PStr ''ok''])]) None
                 (init tables_Device ''dmaker.airfresh.a1''))) \<and>
   wire (snd (async_turn_on_D 1 (scripted [Inr (PList [PStr ''ok''])]) (Some ''Auto'')
                 (init tables_D ''dmaker.airfresh.a1''))) = [(''set_mode'', PStr ''auto'')] \<and>
   state (snd (async_turn_on_D 1 (scripted [Inr (PList [PStr ''ok''])]) (Some ''Auto'')
                 (init tables_D ''dmaker.airfresh.a1''))) = None \<and>
   \<not> skip_update (snd (async_turn_on_D 1 (scripted [Inr (PList [PStr ''ok''])]) (Some ''Auto'')
                 (init tables_D ''dmaker.airfresh.a1'')))"
  by (simp add: fst_send_raw_cmd_ok async_turn_on_Device_def send_raw_cmd_frame
      async_turn_on_D_given async_set_speed_D_def and_self_zero title_Auto
      OperationMode_getitem_def wire_send_raw_cmd)

text \<open>
  Claim C5, amended.  In \<^verbatim>\<open>XiaomiAirFreshD\<close>, a turn-on without a speed, or a turn-off,
  that the device answers with \<^verbatim>\<open>["ok"]\<close> returns normally, sets the power state (true
  for turn-on, false for turn-off) and sets the skip flag; the \<^verbatim>\<open>async_update\<close> that
  follows, whatever the device would do, returns normally and changes nothing but that
  flag, which it clears.  When the device's answer is anything else (another value or an
  exception) the power state and the skip flag are what they were.  In
  \<^verbatim>\<open>XiaomiAirFreshDevice\<close> no command operation changes the power state or the skip flag.
\<close>

theorem optimistic_power_D:
  "(tr (wire s) (''set_power'', PList [PBool True]) = Inr (PList [PStr ''ok'']) \<longrightarrow>
      fst (async_turn_on_D sss tr None s) = Inr () \<and>
      state (snd (async_turn_on_D sss tr None s)) = Some True \<and>
      skip_update (snd (async_turn_on_D sss tr None s)) \<and>
      async_update t tr' (snd (async_turn_on_D sss tr None s)) =
        (Inr (), (snd (async_turn_on_D sss tr None s))\<lparr>skip_update := False\<rparr>)) \<and>
   (tr (wire s) (''set_power'', PList [PBool False]) = Inr (PList [PStr ''ok'']) \<longrightarrow>
      fst (async_turn_off_D tr s) = Inr () \<and>
      state (snd (async_turn_off_D tr s)) = Some False \<and>
      skip_update (snd (async_turn_off_D tr s)) \<and>
      async_update t tr' (snd (async_turn_off_D tr s)) =
        (Inr (), (snd (async_turn_off_D tr s))\<lparr>skip_update := False\<rparr>)) \<and>
   (tr (wire s) (''set_power'', PList [PBool True]) \<noteq> Inr (PList [PStr ''ok'']) \<longrightarrow>
      state (snd (async_turn_on_D sss tr None s)) = state s \<and>
      skip_update (snd (async_turn_on_D sss tr None s)) = skip_update s) \<and>
   (tr (wire s) (''set_power'', PList [PBool False]) \<noteq> Inr (PList [PStr ''ok'']) \<longrightarrow>
      state (snd (async_turn_off_D tr s)) = state s \<and>
      skip_update (snd (async_turn_off_D tr s)) = skip_update s) \<and>
   state (snd (invoke_Device sss tr op s)) = state s \<and>
   skip_update (snd (invoke_Device sss tr op s)) = skip_update s"
proof -
  let ?on = "send_raw_cmd tr ''Turning the miio device on failed.''
               ''set_power'' (PList [PBool True]) s"
  let ?off = "send_raw_cmd tr ''Turning the miio device off failed.''
                ''set_power'' (PList [PBool False]) s"
  obtain r1 s1 where on: "?on = (r1, s1)" by (cases ?on)
  obtain r2 s2 where off: "?off = (r2, s2)" by (cases ?off)
  from on send_raw_cmd_frame [of tr _ "''set_power''" "PList [PBool True]" s]
  have f1: "state s1 = state s" "skip_update s1 = skip_update s"
    by (metis snd_conv)+
  from off send_raw_cmd_frame [of tr _ "''set_power''" "PList [PBool False]" s]
  have f2: "state s2 = state s" "skip_update s2 = skip_update s"
    by (metis snd_conv)+
  have a: "tr (wire s) (''set_power'', PList [PBool True]) = Inr (PList [PStr ''ok'']) \<Longrightarrow>
           async_turn_on_D sss tr None s =
             (Inr (), s1\<lparr>state := Some True, skip_update := True\<rparr>)"
    using on fst_send_raw_cmd_ok [of tr s "''set_power''" "PList [PBool True]"
        "''Turning the miio device on failed.''"]
    by (simp add: async_turn_on_D_not_given)
  have b: "tr (wire s) (''set_power'', PList [PBool False]) = Inr (PList [PStr ''ok'']) \<Longrightarrow>
           async_turn_off_D tr s = (Inr (), s2\<lparr>state := Some False, skip_update := True\<rparr>)"
    using off fst_send_raw_cmd_ok [of tr s "''set_power''" "PList [PBool False]"
        "''Turning the miio device off failed.''"]
    by (simp add: async_turn_off_D_def)
  have c: "tr (wire s) (''set_power'', PList [PBool True]) \<noteq> Inr (PList [PStr ''ok'']) \<Longrightarrow>
           snd (async_turn_on_D sss tr None s) = s1"
    using on fst_send_raw_cmd_not_ok [of tr s "''set_power''" "PList [PBool True]"
        "''Turning the miio device on failed.''"]
    by (cases r1) (auto simp: async_turn_on_D_not_given)
  have d: "tr (wire s) (''set_power'', PList [PBool False]) \<noteq> Inr (PList [PStr ''ok'']) \<Longrightarrow>
           snd (async_turn_off_D tr s) = s2"
    using off fst_send_raw_cmd_not_ok [of tr s "''set_power''" "PList [PBool False]"
        "''Turning the miio device off failed.''"]
    by (cases r2) (auto simp: async_turn_off_D_def)
  show ?thesis
    using a b c d f1 f2 frame_Device [of sss tr op s] by (simp add: async_update_skip)
qed

theorem optimistic_power_D_witness:
  "state (snd (async_turn_on_D 1 (scripted [Inr (PList [PStr ''ok''])]) None
                 (init tables_D ''dmaker.airfresh.a1''))) = Some True \<and>
   skip_update (snd (async_turn_on_D 1 (scripted [Inr (PList [PStr ''ok''])]) None
                 (init tables_D ''dmaker.airfresh.a1''))) \<and>
   async_update tables_D (scripted [])
     (snd (async_turn_on_D 1 (scripted [Inr (PList [PStr ''ok''])]) None
             (init tables_D ''dmaker.airfresh.a1''))) =
     (Inr (), (snd (async_turn_on_D 1 (scripted [Inr (PList [PStr ''ok''])]) None
                      (init tables_D ''dmaker.airfresh.a1'')))\<lparr>skip_update := False\<rparr>) \<and>
   state (snd (async_turn_off_D (scripted [Inr (PList [PStr ''ok''])])
                 (init tables_D ''dmaker.airfresh.a1''))) = Some False \<and>
   skip_update (snd (async_turn_off_D (scripted [Inr (PList [PStr ''ok''])])
                 (init tables_D ''dmaker.airfresh.a1''))) \<and>
   state (snd (async_turn_on_D 1 (scripted [Inr (PList [PStr ''error''])]) None
                 (init tables_D ''dmaker.airfresh.a1''))) = None \<and>
   \<not> skip_update (snd (async_turn_on_D 1 (scripted [Inr (PList [PStr ''error''])]) None
                 (init tables_D ''dmaker.airfresh.a1''))) \<and>
   state (snd (async_turn_off_D (scripted [Inr (PList [PStr ''error''])])
                 (init tables_D ''dmaker.airfresh.a1''))) = None"
proof -
  let ?s = "init tables_D ''dmaker.airfresh.a1''"
  have ok: "scripted [Inr (PList [PStr ''ok''])] (wire ?s) c = Inr (PList [PStr ''ok''])" for c
    by simp
  have err: "scripted [Inr (PList [PStr ''error''])] (wire ?s) c \<noteq> Inr (PList [PStr ''ok''])" for c
    by simp
  from optimistic_power_D [of "scripted [Inr (PList [PStr ''ok''])]" ?s 1 tables_D "scripted []" Turn_off]
    optimistic_power_D [of "scripted [Inr (PList [PStr ''error''])]" ?s 1 tables_D "scripted []" Turn_off]
    ok err
  show ?thesis
    by simp
qed

subsection \<open>Availability\<close>

text \<open>
  Claim C9, as stated, fails on the code.  A command that the device answers with a value
  other than \<^verbatim>\<open>["ok"]\<close> has failed (the dispatcher reports \<^verbatim>\<open>False\<close>), and an
  entity that was available is still available after it.
\<close>

theorem failed_command_stays_available:
  "fst (send_raw_cmd (scripted [Inr (PList [PStr ''error''])])
          ''Turning the miio device off failed.'' ''set_power'' (PList [PBool False])
          \<lparr>available = True, state = Some True, state_attrs = Map.empty,
           skip_update = False, wire = [], logged = []\<rparr>) = Inr False \<and>
   available (snd (invoke_Device 1 (scripted [Inr (PList [PStr ''error''])]) Turn_off
          \<lparr>available = True, state = Some True, state_attrs = Map.empty,
           skip_update = False, wire = [], logged = []\<rparr>)) \<and>
   available (snd (invoke_D 1 (scripted [Inr (PList [PStr ''error''])]) Turn_off
          \<lparr>available = True, state = Some True, state_attrs = Map.empty,
           skip_update = False, wire = [], logged = []\<rparr>))"
  by (simp add: send_raw_cmd_def try_command_def py_eq_SUCCESS log_def
      async_turn_off_Device_def async_turn_off_D_def discard_def)

text \<open>
  Claim C9, amended.  For each command operation \<open>op\<close> of either entity class: if the
  operation made a call on which the transport raised a device exception, the entity is
  unavailable afterwards; and if the entity is available afterwards, it was available
  before (no command operation sets the flag).  For the poll, call it successful when it
  is not skipped, \<^verbatim>\<open>get_status\<close> returns a snapshot and \<^verbatim>\<open>async_update\<close> returns
  normally.  If an \<^verbatim>\<open>async_update\<close> that returns normally turns an unavailable entity
  into an available one, it was a successful poll; and every successful poll leaves the
  entity available.  Nothing is said of a poll that ends in an exception.
\<close>

theorem availability_restored_only_by_poll:
  "(wire (snd (invoke_Device sss tr op s)) = wire s @ [c] \<and>
    tr (wire s) c = Inl (DeviceException exc) \<longrightarrow>
      \<not> available (snd (invoke_Device sss tr op s))) \<and>
   (wire (snd (invoke_D sss tr op s)) = wire s @ [c] \<and>
    tr (wire s) c = Inl (DeviceException exc) \<longrightarrow>
      \<not> available (snd (invoke_D sss tr op s))) \<and>
   (available (snd (invoke_Device sss tr op s)) \<longrightarrow> available s) \<and>
   (available (snd (invoke_D sss tr op s)) \<longrightarrow> available s) \<and>
   (fst (async_update t tr s) = Inr () \<and>
    available (snd (async_update t tr s)) \<and> \<not> available s \<longrightarrow>
      \<not> skip_update s \<and> (\<exists>st. fst (get_status t tr s) = Inr st)) \<and>
   (\<not> skip_update s \<and> (\<exists>st. fst (get_status t tr s) = Inr st) \<and>
    fst (async_update t tr s) = Inr () \<longrightarrow>
      available (snd (async_update t tr s)))"
proof -
  have 5: "fst (async_update t tr s) = Inr () \<and>
           available (snd (async_update t tr s)) \<and> \<not> available s \<longrightarrow>
             \<not> skip_update s \<and> (\<exists>st. fst (get_status t tr s) = Inr st)"
    by (auto simp: available_async_update split: if_splits sum.splits error.splits)
  have 6: "\<not> skip_update s \<and> (\<exists>st. fst (get_status t tr s) = Inr st) \<and>
           fst (async_update t tr s) = Inr () \<longrightarrow>
             available (snd (async_update t tr s))"
    by (auto simp: available_async_update)
  from 5 6 show ?thesis
    using failed_Device [of sss tr op s c exc] failed_D [of sss tr op s c exc]
      never_available_Device [of sss tr op s] never_available_D [of sss tr op s]
    by blast
qed

theorem availability_restored_only_by_poll_witness:
  "\<not> available (snd (invoke_Device 1 (scripted []) Turn_off
          \<lparr>available = True, state = Some True, state_attrs = Map.empty,
           skip_update = False, wire = [], logged = []\<rparr>)) \<and>
   \<not> available (snd (invoke_D 1 (scripted []) Turn_off
          \<lparr>available = True, state = Some True, state_attrs = Map.empty,
           skip_update = False, wire = [], logged = []\<rparr>)) \<and>
   available (snd (invoke_Device 1 (scripted [Inr (PList [PStr ''ok''])]) Turn_off
          \<lparr>available = True, state = Some True, state_attrs = Map.empty,
           skip_update = False, wire = [], logged = []\<rparr>)) \<and>
   \<not> available (init tables_D ''dmaker.airfresh.a1'') \<and>
   fst (async_update tables_D
          (scripted [Inr (PList [PBool True, PInt 12, PInt 430, PStr ''auto''])])
          (init tables_D ''dmaker.airfresh.a1'')) = Inr () \<and>
   available (snd (async_update tables_D
          (scripted [Inr (PList [PBool True, PInt 12, PInt 430, PStr ''auto''])])
          (init tables_D ''dmaker.airfresh.a1'')))"
proof -
  let ?a = "\<lparr>available = True, state = Some True, state_attrs = Map.empty,
             skip_update = False, wire = [], logged = []\<rparr>"
  let ?c = "(''set_power'', PList [PBool False])"
  let ?poll = "scripted [Inr (PList [PBool True, PInt 12, PInt 430, PStr ''auto''])]"
  let ?s = "init tables_D ''dmaker.airfresh.a1''"
  have h1: "wire (snd (invoke_Device 1 (scripted []) Turn_off ?a)) = wire ?a @ [?c] \<and>
            scripted [] (wire ?a) ?c = Inl (DeviceException ''no reply'')"
    by (simp add: wire_async_turn_off_Device)
  have h2: "wire (snd (invoke_D 1 (scripted []) Turn_off ?a)) = wire ?a @ [?c] \<and>
            scripted [] (wire ?a) ?c = Inl (DeviceException ''no reply'')"
    by (simp add: wire_async_turn_off_D)
  have b: "batches (properties tables_D) = [[''power'', ''pm25'', ''co2'', ''mode'']]"
    by (simp add: batches.simps tables_D_def properties_D_def)
  have "replay ?poll (wire ?s) (map get_prop (batches (properties tables_D))) =
          Some [[PBool True, PInt 12, PInt 430, PStr ''auto'']]"
    by (simp add: b)
  note rp = this
  from fst_get_status_replay [OF rp]
  have h3: "\<not> skip_update ?s \<and> (\<exists>st. fst (get_status tables_D ?poll ?s) = Inr st)"
    by simp
  let ?st = "dict_of (zip (properties tables_D) [PBool True, PInt 12, PInt 430, PStr ''auto''])"
  from get_status_loop_replay [OF rp, of "[]"]
  obtain s2 where gs: "get_status tables_D ?poll ?s = (Inr ?st, s2)"
    by (simp add: get_status_def Let_def)
  have ex: "extract_all (plain_properties tables_D) ?st (available_attributes tables_D) =
              Inr [(''pm25'', PInt 12), (''co2'', PInt 430), (''mode'', PStr ''auto'')]"
    by (simp add: tables_D_def properties_D_def plain_properties_D_def
        AVAILABLE_ATTRIBUTES_AIRFRESH_D_def extract_value_from_attribute_def
        getattr_status_def mode_def data_get_def dict_of_def OperationMode_call_def)
  have h5: "fst (async_update tables_D ?poll ?s) = Inr ()"
    by (simp add: async_update_def async_update_try_def gs ex Let_def)
  have h4: "available (snd (invoke_Device 1 (scripted [Inr (PList [PStr ''ok''])]) Turn_off ?a))"
    by (simp add: async_turn_off_Device_def available_send_raw_cmd)
  from availability_restored_only_by_poll
         [of 1 "scripted []" Turn_off ?a ?c "''no reply''" tables_D]
       availability_restored_only_by_poll
         [of 1 "scripted [Inr (PList [PStr ''ok''])]" Turn_off ?a ?c "''no reply''" tables_D]
       availability_restored_only_by_poll
         [of 1 ?poll Turn_off ?s ?c "''no reply''" tables_D]
       h1 h2 h3 h4 h5
  show ?thesis
    by simp
qed

end
